theory Spec2Isabelle
  imports Complex_Main
begin

section \<open>Faults\<close>

text \<open>
  The exceptions a forward pass can raise. Python's exceptions become the left summand of
  a result type: a computation of type \<open>error + 'a\<close> either raises (\<open>Inl\<close>) or returns
  (\<open>Inr\<close>). \<open>AttributeError\<close> carries the name of the attribute that was read.
\<close>

datatype error =
    IndexError
  | RuntimeError
  | ZeroDivisionError
  | ValueError
  | AttributeError string

definition bindE :: "error + 'a \<Rightarrow> ('a \<Rightarrow> error + 'b) \<Rightarrow> error + 'b" where
  "bindE r f = (case r of Inl e \<Rightarrow> Inl e | Inr v \<Rightarrow> f v)"

definition getattr :: "'a option \<Rightarrow> string \<Rightarrow> error + 'a" where
  \<comment> \<open>Reading \<open>self.name\<close>: an attribute that was never assigned raises.\<close>
  "getattr slot name = (case slot of None \<Rightarrow> Inl (AttributeError name) | Some v \<Rightarrow> Inr v)"

section \<open>Tensors\<close>

text \<open>
  A tensor is its shape together with its entries. Rank 2 and rank 3 are the ranks the
  model's interface uses. Entries are read by index; every operation below builds its
  result with \<open>tensor2\<close> or \<open>tensor3\<close>, which fix the entries outside the shape to zero,
  so two results of the same shape with the same entries are equal. In the encoder, reals
  stand for the floating-point numbers of the library. The two heads end in operations
  whose result depends on the infinities and on NaN; their tensors hold the values of type
  \<open>fval\<close> introduced further down.
\<close>

record 'a tensor2 =
  rows :: nat
  cols :: nat
  at2 :: "nat \<Rightarrow> nat \<Rightarrow> 'a"

record 'a tensor3 =
  dim0 :: nat
  dim1 :: nat
  dim2 :: nat
  at3 :: "nat \<Rightarrow> nat \<Rightarrow> nat \<Rightarrow> 'a"

definition tensor2 :: "nat \<Rightarrow> nat \<Rightarrow> (nat \<Rightarrow> nat \<Rightarrow> 'a::zero) \<Rightarrow> 'a tensor2" where
  "tensor2 R C f =
     \<lparr>rows = R, cols = C, at2 = (\<lambda>i j. if i < R \<and> j < C then f i j else 0)\<rparr>"

definition tensor3 ::
  "nat \<Rightarrow> nat \<Rightarrow> nat \<Rightarrow> (nat \<Rightarrow> nat \<Rightarrow> nat \<Rightarrow> 'a::zero) \<Rightarrow> 'a tensor3" where
  "tensor3 B T D f =
     \<lparr>dim0 = B, dim1 = T, dim2 = D,
      at3 = (\<lambda>b t d. if b < B \<and> t < T \<and> d < D then f b t d else 0)\<rparr>"

definition all_below :: "nat \<Rightarrow> (nat \<Rightarrow> bool) \<Rightarrow> bool" where
  \<comment> \<open>A check over the indices \<open>0, ..., n - 1\<close>.\<close>
  "all_below n P = list_all P [0..<n]"

definition sum_below :: "nat \<Rightarrow> (nat \<Rightarrow> real) \<Rightarrow> real" where
  \<comment> \<open>A reduction by addition over the indices \<open>0, ..., n - 1\<close>.\<close>
  "sum_below n f = sum_list (map f [0..<n])"

subsection \<open>Element-wise operations and broadcasting\<close>

definition broadcast_dim :: "nat \<Rightarrow> nat \<Rightarrow> error + nat" where
  \<comment> \<open>Two sizes are compatible when they are equal or one of them is 1.\<close>
  "broadcast_dim a b =
     (if a = b then Inr a
      else if a = 1 then Inr b
      else if b = 1 then Inr a
      else Inl RuntimeError)"

definition bidx :: "nat \<Rightarrow> nat \<Rightarrow> nat" where
  \<comment> \<open>The index read from an operand of size \<open>d\<close> along a broadcast axis.\<close>
  "bidx d i = (if d = 1 then 0 else i)"

definition broadcast3 ::
  "('a \<Rightarrow> 'b \<Rightarrow> 'c::zero) \<Rightarrow> 'a tensor3 \<Rightarrow> 'b tensor3 \<Rightarrow> error + 'c tensor3" where
  "broadcast3 f x y =
     bindE (broadcast_dim (dim0 x) (dim0 y)) (\<lambda>B.
     bindE (broadcast_dim (dim1 x) (dim1 y)) (\<lambda>T.
     bindE (broadcast_dim (dim2 x) (dim2 y)) (\<lambda>D.
       Inr (tensor3 B T D (\<lambda>b t d.
         f (at3 x (bidx (dim0 x) b) (bidx (dim1 x) t) (bidx (dim2 x) d))
           (at3 y (bidx (dim0 y) b) (bidx (dim1 y) t) (bidx (dim2 y) d)))))))"

definition add3 :: "real tensor3 \<Rightarrow> real tensor3 \<Rightarrow> error + real tensor3" where
  "add3 x y = broadcast3 (\<lambda>a b. a + b) x y"

definition map3 :: "('a \<Rightarrow> 'b::zero) \<Rightarrow> 'a tensor3 \<Rightarrow> 'b tensor3" where
  "map3 f x = tensor3 (dim0 x) (dim1 x) (dim2 x) (\<lambda>b t d. f (at3 x b t d))"

definition relu :: "real \<Rightarrow> real" where
  "relu v = max 0 v"

definition erf :: "real \<Rightarrow> real" where
  \<comment> \<open>The error function, by its power series. No proof below computes a value of it.\<close>
  "erf v = 2 / sqrt pi * (\<Sum>n. (- 1) ^ n * v ^ (2 * n + 1) / (fact n * real (2 * n + 1)))"

definition gelu :: "real \<Rightarrow> real" where
  \<comment> \<open>\<open>torch.nn.functional.gelu\<close> with its default, exact form.\<close>
  "gelu v = v * (1 + erf (v / sqrt 2)) / 2"

definition zeros_like :: "int tensor2 \<Rightarrow> int tensor2" where
  "zeros_like x = tensor2 (rows x) (cols x) (\<lambda>i j. 0)"

section \<open>Library modules\<close>

text \<open>
  The layers of \<open>torch.nn\<close> the model is built from, each with the attributes its forward
  pass reads. A weight is read by index; its shape is the one the constructor was given.
\<close>

record nn_Embedding =
  num_embeddings :: nat
  embedding_dim :: nat
  emb_weight :: "nat \<Rightarrow> nat \<Rightarrow> real"

record nn_Linear =
  in_features :: nat
  out_features :: nat
  lin_weight :: "nat \<Rightarrow> nat \<Rightarrow> real"
  lin_bias :: "nat \<Rightarrow> real"

record nn_LayerNorm =
  normalized_shape :: nat
  ln_eps :: real
  ln_weight :: "nat \<Rightarrow> real"
  ln_bias :: "nat \<Rightarrow> real"

record nn_Dropout =
  drop_p :: real
  training :: bool

definition nn_Embedding_forward :: "nn_Embedding \<Rightarrow> int tensor2 \<Rightarrow> error + real tensor3" where
  \<comment> \<open>A lookup per index; an index outside the table is an indexing fault.\<close>
  "nn_Embedding_forward E idx =
     (if all_below (rows idx) (\<lambda>i. all_below (cols idx) (\<lambda>j.
           0 \<le> at2 idx i j \<and> at2 idx i j < int (num_embeddings E)))
      then Inr (tensor3 (rows idx) (cols idx) (embedding_dim E)
                 (\<lambda>i j d. emb_weight E (nat (at2 idx i j)) d))
      else Inl IndexError)"

definition nn_Linear_forward :: "nn_Linear \<Rightarrow> real tensor3 \<Rightarrow> error + real tensor3" where
  \<comment> \<open>\<open>y = x W\<^sup>T + b\<close> on the last axis.\<close>
  "nn_Linear_forward L x =
     (if dim2 x = in_features L
      then Inr (tensor3 (dim0 x) (dim1 x) (out_features L)
                 (\<lambda>b t j. sum_below (in_features L) (\<lambda>i. at3 x b t i * lin_weight L j i)
                          + lin_bias L j))
      else Inl RuntimeError)"

definition mean_last :: "real tensor3 \<Rightarrow> nat \<Rightarrow> nat \<Rightarrow> real" where
  "mean_last x b t = sum_below (dim2 x) (\<lambda>d. at3 x b t d) / real (dim2 x)"

definition var_last :: "real tensor3 \<Rightarrow> nat \<Rightarrow> nat \<Rightarrow> real" where
  \<comment> \<open>The biased variance over the last axis.\<close>
  "var_last x b t =
     sum_below (dim2 x) (\<lambda>d. (at3 x b t d - mean_last x b t)\<^sup>2) / real (dim2 x)"

definition layer_norm_entry :: "nn_LayerNorm \<Rightarrow> real tensor3 \<Rightarrow> nat \<Rightarrow> nat \<Rightarrow> nat \<Rightarrow> real" where
  "layer_norm_entry N x b t d =
     (at3 x b t d - mean_last x b t) / sqrt (var_last x b t + ln_eps N) * ln_weight N d
       + ln_bias N d"

definition nn_LayerNorm_forward :: "nn_LayerNorm \<Rightarrow> real tensor3 \<Rightarrow> error + real tensor3" where
  "nn_LayerNorm_forward N x =
     (if dim2 x = normalized_shape N
      then Inr (tensor3 (dim0 x) (dim1 x) (dim2 x) (layer_norm_entry N x))
      else Inl RuntimeError)"

text \<open>
  Dropout is the one place where a forward pass can touch state that outlives the call:
  the random generator. The generator is the sequence of uniform draws it has yet to
  produce; drawing \<open>n\<close> numbers returns the sequence advanced by \<open>n\<close>. A layer that is not
  in training mode, has probability 0, or is given an empty tensor returns its input and
  draws nothing; probability 1 zeroes the input and draws nothing.
\<close>

type_synonym generator = "nat \<Rightarrow> real"

definition nn_Dropout_forward ::
  "nn_Dropout \<Rightarrow> real tensor3 \<Rightarrow> generator \<Rightarrow> real tensor3 \<times> generator" where
  "nn_Dropout_forward D x g =
     (if drop_p D = 0 \<or> \<not> training D \<or> dim0 x * dim1 x * dim2 x = 0 then (x, g)
      else if drop_p D = 1 then (map3 (\<lambda>v. v * 0) x, g)
      else (tensor3 (dim0 x) (dim1 x) (dim2 x)
              (\<lambda>b t d. if g ((b * dim1 x + t) * dim2 x + d) < 1 - drop_p D
                        then at3 x b t d / (1 - drop_p D) else 0),
            (\<lambda>i. g (i + dim0 x * dim1 x * dim2 x))))"

section \<open>Floating-point values of the heads\<close>

text \<open>
  The tensors of the two heads hold values of the library's 32-bit floating-point format:
  a real within the range of the format, an infinity, or NaN. A sum or a product that
  leaves the range is an infinity (\<open>float32\<close>); an infinity times zero, and the sum of the
  two infinities, are NaN; NaN propagates through every operation. Rounding inside the
  range and the sign of zero are not modelled. The zero of the type, which fills a tensor
  outside its shape, is the finite value 0. A projection sums its products in index order
  and adds the bias last.
\<close>

datatype fval = Finite real | PosInf | NegInf | NaN

instantiation fval :: zero
begin
definition zero_fval :: fval where
  "zero_fval = Finite 0"
instance ..
end

definition float32_max :: real where
  \<comment> \<open>The largest finite value of the format, about \<open>3.4028 * 10 ^ 38\<close>.\<close>
  "float32_max = (2 ^ 24 - 1) * 2 ^ 104"

definition float32 :: "real \<Rightarrow> fval" where
  \<comment> \<open>The value a real result is stored as.\<close>
  "float32 x =
     (if float32_max < x then PosInf else if x < - float32_max then NegInf else Finite x)"

fun fadd :: "fval \<Rightarrow> fval \<Rightarrow> fval" where
  "fadd (Finite a) (Finite b) = float32 (a + b)"
| "fadd (Finite a) PosInf = PosInf"
| "fadd (Finite a) NegInf = NegInf"
| "fadd PosInf (Finite b) = PosInf"
| "fadd PosInf PosInf = PosInf"
| "fadd PosInf NegInf = NaN"
| "fadd NegInf (Finite b) = NegInf"
| "fadd NegInf PosInf = NaN"
| "fadd NegInf NegInf = NegInf"
| "fadd NaN y = NaN"
| "fadd x NaN = NaN"

fun fmul :: "fval \<Rightarrow> fval \<Rightarrow> fval" where
  "fmul (Finite a) (Finite b) = float32 (a * b)"
| "fmul (Finite a) PosInf = (if 0 < a then PosInf else if a < 0 then NegInf else NaN)"
| "fmul (Finite a) NegInf = (if 0 < a then NegInf else if a < 0 then PosInf else NaN)"
| "fmul PosInf (Finite b) = (if 0 < b then PosInf else if b < 0 then NegInf else NaN)"
| "fmul NegInf (Finite b) = (if 0 < b then NegInf else if b < 0 then PosInf else NaN)"
| "fmul PosInf PosInf = PosInf"
| "fmul PosInf NegInf = NegInf"
| "fmul NegInf PosInf = NegInf"
| "fmul NegInf NegInf = PosInf"
| "fmul NaN y = NaN"
| "fmul x NaN = NaN"

fun frelu :: "fval \<Rightarrow> fval" where
  \<comment> \<open>\<open>torch.relu\<close>: NaN stays NaN.\<close>
  "frelu (Finite a) = Finite (max 0 a)"
| "frelu PosInf = PosInf"
| "frelu NegInf = Finite 0"
| "frelu NaN = NaN"

fun fmax :: "fval \<Rightarrow> fval \<Rightarrow> fval" where
  \<comment> \<open>The maximum as \<open>torch.max\<close> reduces with it: NaN wins over every value.\<close>
  "fmax (Finite a) (Finite b) = Finite (max a b)"
| "fmax (Finite a) PosInf = PosInf"
| "fmax (Finite a) NegInf = Finite a"
| "fmax PosInf (Finite b) = PosInf"
| "fmax PosInf PosInf = PosInf"
| "fmax PosInf NegInf = PosInf"
| "fmax NegInf (Finite b) = Finite b"
| "fmax NegInf PosInf = PosInf"
| "fmax NegInf NegInf = NegInf"
| "fmax NaN y = NaN"
| "fmax x NaN = NaN"

fun is_finite :: "fval \<Rightarrow> bool" where
  "is_finite (Finite a) = True"
| "is_finite PosInf = False"
| "is_finite NegInf = False"
| "is_finite NaN = False"

primrec fsum_below :: "nat \<Rightarrow> (nat \<Rightarrow> fval) \<Rightarrow> fval" where
  \<comment> \<open>A reduction by addition over the indices \<open>0, ..., n - 1\<close>, in this order.\<close>
  "fsum_below 0 f = Finite 0"
| "fsum_below (Suc n) f = fadd (fsum_below n f) (f n)"

primrec fmax_upto :: "(nat \<Rightarrow> fval) \<Rightarrow> nat \<Rightarrow> fval" where
  \<comment> \<open>The largest of \<open>f 0, ..., f n\<close>.\<close>
  "fmax_upto f 0 = f 0"
| "fmax_upto f (Suc n) = fmax (fmax_upto f n) (f (Suc n))"

definition nn_Linear_forward32 :: "nn_Linear \<Rightarrow> fval tensor3 \<Rightarrow> error + fval tensor3" where
  \<comment> \<open>\<open>y = x W\<^sup>T + b\<close> on the last axis, on floating-point values.\<close>
  "nn_Linear_forward32 L x =
     (if dim2 x = in_features L
      then Inr (tensor3 (dim0 x) (dim1 x) (out_features L)
                 (\<lambda>b t j. fadd (fsum_below (in_features L)
                                   (\<lambda>i. fmul (at3 x b t i) (float32 (lin_weight L j i))))
                               (float32 (lin_bias L j))))
      else Inl RuntimeError)"

section \<open>Tensor operations of the heads\<close>

definition select_position :: "real tensor3 \<Rightarrow> nat \<Rightarrow> error + real tensor2" where
  \<comment> \<open>\<open>x[:, i, :]\<close> for a non-negative \<open>i\<close>.\<close>
  "select_position x i =
     (if i < dim1 x then Inr (tensor2 (dim0 x) (dim2 x) (\<lambda>b d. at3 x b i d))
      else Inl IndexError)"

definition drop_first :: "'a::zero tensor3 \<Rightarrow> 'a tensor3" where
  \<comment> \<open>\<open>x[:, 1:]\<close>: a slice never raises; an empty axis stays empty.\<close>
  "drop_first x = tensor3 (dim0 x) (dim1 x - 1) (dim2 x) (\<lambda>b t d. at3 x b (t + 1) d)"

definition mask_float :: "int tensor2 \<Rightarrow> fval tensor3" where
  \<comment> \<open>\<open>mask[:, 1:][:, :, None].float()\<close>: shape \<open>(B, T - 1, 1)\<close>, each entry converted.\<close>
  "mask_float msk =
     tensor3 (rows msk) (cols msk - 1) 1 (\<lambda>b t d. float32 (real_of_int (at2 msk b (t + 1))))"

definition fmul3 :: "fval tensor3 \<Rightarrow> fval tensor3 \<Rightarrow> error + fval tensor3" where
  \<comment> \<open>\<open>x * y\<close> on floating-point tensors.\<close>
  "fmul3 x y = broadcast3 fmul x y"

definition scatter_last ::
  "'a::zero tensor3 \<Rightarrow> int tensor2 \<Rightarrow> 'a tensor3 \<Rightarrow> error + 'a tensor3" where
  \<comment> \<open>\<open>torch.scatter(self, dim=-1, index=ids.unsqueeze(-1), src=src)\<close>: the index tensor has
      shape \<open>(B, T, 1)\<close>, so \<open>out[b][t][index[b][t][k]] = src[b][t][k]\<close> is written for
      \<open>k = 0\<close> only. An empty index leaves \<open>self\<close> as it is; otherwise the index must fit
      inside \<open>self\<close> (apart from the last axis) and inside \<open>src\<close>, and every index value
      must address the last axis of \<open>self\<close>.\<close>
  "scatter_last self index src =
     (if rows index * cols index = 0 then Inr self
      else if dim0 self < rows index \<or> dim1 self < cols index
              \<or> dim0 src < rows index \<or> dim1 src < cols index \<or> dim2 src < 1
        then Inl RuntimeError
      else if \<not> all_below (rows index) (\<lambda>b. all_below (cols index) (\<lambda>t.
                 0 \<le> at2 index b t \<and> at2 index b t < int (dim2 self)))
        then Inl RuntimeError
      else Inr (tensor3 (dim0 self) (dim1 self) (dim2 self)
                 (\<lambda>b t v. if b < rows index \<and> t < cols index \<and> int v = at2 index b t
                           then at3 src b t 0 else at3 self b t v)))"

definition max_dim1 :: "fval tensor3 \<Rightarrow> error + fval tensor2" where
  \<comment> \<open>\<open>torch.max(x, dim=1).values\<close>: a reduction over an empty axis raises.\<close>
  "max_dim1 x =
     (if dim1 x = 0 then Inl IndexError
      else Inr (tensor2 (dim0 x) (dim2 x) (\<lambda>b v. fmax_upto (\<lambda>t. at3 x b t v) (dim1 x - 1))))"

definition wrap_index :: "nat \<Rightarrow> int \<Rightarrow> error + nat" where
  \<comment> \<open>An index into an axis of size \<open>n\<close>; a negative index counts from the end.\<close>
  "wrap_index n i =
     (if 0 \<le> i \<and> i < int n then Inr (nat i)
      else if - int n \<le> i \<and> i < 0 then Inr (nat (i + int n))
      else Inl IndexError)"

fun mapE :: "('a \<Rightarrow> error + 'b) \<Rightarrow> 'a list \<Rightarrow> error + 'b list" where
  "mapE f [] = Inr []"
| "mapE f (x # xs) = bindE (f x) (\<lambda>y. bindE (mapE f xs) (\<lambda>ys. Inr (y # ys)))"

definition scale_columns :: "fval tensor2 \<Rightarrow> int list \<Rightarrow> real \<Rightarrow> error + fval tensor2" where
  \<comment> \<open>\<open>x[:, idx] *= c\<close>, in place on a tensor no one else holds: the result is returned.
      The selected entries are multiplied, not assigned. The indices are checked as the
      entries are read: with no row there is no entry, and no index is checked.\<close>
  "scale_columns x idx c =
     (if rows x = 0 then Inr x
      else bindE (mapE (wrap_index (cols x)) idx) (\<lambda>cs.
             Inr (tensor2 (rows x) (cols x)
                   (\<lambda>b v. if v \<in> set cs then fmul (at2 x b v) (float32 c) else at2 x b v))))"

section \<open>The model\<close>

subsection \<open>Configuration and collaborators\<close>

text \<open>
  Modelled from the spec: \<open>BgeConfig\<close> (\<open>config.py\<close> is not among the sources). Its
  fields are the ones the constructors below read; the sizes are natural numbers.
\<close>

record BgeConfig =
  word_size :: nat
  embed_dim :: nat
  position_size :: nat
  layer_norm_eps :: real
  attn_dim :: nat
  attn_output_dim :: nat
  attn_layer_norm_eps :: real
  num_heads :: nat
  hidden_size :: nat
  ffn_layer_norm_eps :: real
  dropout_prob :: real
  num_of_attn_layers :: nat

text \<open>
  Modelled from the spec: the tokenizer, an external collaborator that provides the four
  reserved token ids read by the sparse head.
\<close>

record Tokenizer =
  cls_token_id :: int
  eos_token_id :: int
  pad_token_id :: int
  unk_token_id :: int

text \<open>
  The values of the learned parameters, by parameter name and index. A parameter of layer
  \<open>l\<close> of the stack is read with \<open>l\<close> as the first index.
\<close>

type_synonym state_dict = "string \<Rightarrow> nat list \<Rightarrow> real"

definition nn_Embedding_init :: "nat \<Rightarrow> nat \<Rightarrow> (nat list \<Rightarrow> real) \<Rightarrow> nn_Embedding" where
  "nn_Embedding_init n d w =
     \<lparr>num_embeddings = n, embedding_dim = d, emb_weight = (\<lambda>i j. w [i, j])\<rparr>"

definition nn_Linear_init ::
  "nat \<Rightarrow> nat \<Rightarrow> (nat list \<Rightarrow> real) \<Rightarrow> (nat list \<Rightarrow> real) \<Rightarrow> nn_Linear" where
  "nn_Linear_init n_in n_out w b =
     \<lparr>in_features = n_in, out_features = n_out,
      lin_weight = (\<lambda>j i. w [j, i]), lin_bias = (\<lambda>j. b [j])\<rparr>"

definition nn_LayerNorm_init ::
  "nat \<Rightarrow> real \<Rightarrow> (nat list \<Rightarrow> real) \<Rightarrow> (nat list \<Rightarrow> real) \<Rightarrow> nn_LayerNorm" where
  "nn_LayerNorm_init n eps w b =
     \<lparr>normalized_shape = n, ln_eps = eps, ln_weight = (\<lambda>d. w [d]), ln_bias = (\<lambda>d. b [d])\<rparr>"

definition nn_Dropout_init :: "real \<Rightarrow> error + nn_Dropout" where
  \<comment> \<open>A probability outside \<open>[0, 1]\<close> is refused; a new module is in training mode.\<close>
  "nn_Dropout_init p =
     (if p < 0 \<or> 1 < p then Inl ValueError else Inr \<lparr>drop_p = p, training = True\<rparr>)"

subsection \<open>Embedding composer\<close>

record BgeM3Embedding =
  Emb_num_of_words :: nat
  Emb_embed_dim :: nat
  Emb_position_embed_dim :: nat
  Emb_layer_norm_eps :: real
  word_embedding :: nn_Embedding
  position_embedding :: nn_Embedding
  token_type_embedding :: nn_Embedding
  Emb_LayerNorm :: nn_LayerNorm

definition BgeM3Embedding_init :: "BgeConfig \<Rightarrow> state_dict \<Rightarrow> BgeM3Embedding" where
  "BgeM3Embedding_init config \<theta> =
     \<lparr>Emb_num_of_words = word_size config,
      Emb_embed_dim = embed_dim config,
      Emb_position_embed_dim = position_size config,
      Emb_layer_norm_eps = layer_norm_eps config,
      word_embedding =
        nn_Embedding_init (word_size config) (embed_dim config)
          (\<theta> ''embedding.word_embedding.weight''),
      position_embedding =
        nn_Embedding_init (position_size config) (embed_dim config)
          (\<theta> ''embedding.position_embedding.weight''),
      token_type_embedding =
        nn_Embedding_init 1 (embed_dim config) (\<theta> ''embedding.token_type_embedding.weight''),
      Emb_LayerNorm =
        nn_LayerNorm_init (embed_dim config) (layer_norm_eps config)
          (\<theta> ''embedding.LayerNorm.weight'') (\<theta> ''embedding.LayerNorm.bias'')\<rparr>"

definition BgeM3Embedding_forward ::
  "BgeM3Embedding \<Rightarrow> int tensor2 \<Rightarrow> int tensor2 option \<Rightarrow> error + real tensor3" where
  "BgeM3Embedding_forward self input_ids token_type_ids =
     bindE (nn_Embedding_forward (word_embedding self) input_ids) (\<lambda>word_embed.
     let position_ids = tensor2 1 (cols input_ids) (\<lambda>i t. int t) in
     bindE (nn_Embedding_forward (position_embedding self) position_ids) (\<lambda>position_embed.
     let token_type_ids =
           (case token_type_ids of None \<Rightarrow> zeros_like input_ids | Some ids \<Rightarrow> ids) in
     bindE (nn_Embedding_forward (token_type_embedding self) token_type_ids)
       (\<lambda>token_type_embed.
     bindE (add3 word_embed position_embed) (\<lambda>embed.
     bindE (add3 embed token_type_embed) (\<lambda>embed.
     nn_LayerNorm_forward (Emb_LayerNorm self) embed)))))"

subsection \<open>Self-attention block\<close>

record MultiHeadSelfAttention =
  MHSA_embed_dim :: nat
  MHSA_attn_dim :: nat
  MHSA_attn_output_dim :: nat
  MHSA_attn_layer_norm_eps :: real
  MHSA_num_heads :: nat
  attn_q :: nn_Linear
  attn_k :: nn_Linear
  attn_v :: nn_Linear
  attn_o :: nn_Linear
  MHSA_LayerNorm :: nn_LayerNorm

definition MultiHeadSelfAttention_init ::
  "BgeConfig \<Rightarrow> (string \<Rightarrow> nat list \<Rightarrow> real) \<Rightarrow> MultiHeadSelfAttention" where
  "MultiHeadSelfAttention_init config \<theta> =
     \<lparr>MHSA_embed_dim = embed_dim config,
      MHSA_attn_dim = attn_dim config,
      MHSA_attn_output_dim = attn_output_dim config,
      MHSA_attn_layer_norm_eps = attn_layer_norm_eps config,
      MHSA_num_heads = num_heads config,
      attn_q = nn_Linear_init (embed_dim config) (attn_dim config)
                 (\<theta> ''attention.q.weight'') (\<theta> ''attention.q.bias''),
      attn_k = nn_Linear_init (embed_dim config) (attn_dim config)
                 (\<theta> ''attention.k.weight'') (\<theta> ''attention.k.bias''),
      attn_v = nn_Linear_init (embed_dim config) (attn_dim config)
                 (\<theta> ''attention.v.weight'') (\<theta> ''attention.v.bias''),
      attn_o = nn_Linear_init (attn_dim config) (attn_output_dim config)
                 (\<theta> ''attention.o.weight'') (\<theta> ''attention.o.bias''),
      MHSA_LayerNorm =
        nn_LayerNorm_init (attn_output_dim config) (attn_layer_norm_eps config)
          (\<theta> ''attention.LayerNorm.weight'') (\<theta> ''attention.LayerNorm.bias'')\<rparr>"

text \<open>
  The rank-4 tensors inside the block are read by index \<open>(batch, head, position, d)\<close>;
  their shape is \<open>(batch_size, num_heads, seq_length, head_dim)\<close>.
\<close>

type_synonym tensor4 = "nat \<Rightarrow> nat \<Rightarrow> nat \<Rightarrow> nat \<Rightarrow> real"

definition split_heads :: "real tensor3 \<Rightarrow> nat \<Rightarrow> tensor4" where
  \<comment> \<open>Entry \<open>(b, h, t, d)\<close> of \<open>x.view(B, T, n, hd).transpose(1, 2)\<close>.\<close>
  "split_heads x hdim = (\<lambda>b h t d. at3 x b t (h * hdim + d))"

definition view_heads :: "real tensor3 \<Rightarrow> nat \<Rightarrow> nat \<Rightarrow> nat \<Rightarrow> nat \<Rightarrow> error + tensor4" where
  \<comment> \<open>\<open>x.view(B, T, n, hd).transpose(1, 2)\<close>: the view needs as many entries as \<open>x\<close> has.\<close>
  "view_heads x B T n hdim =
     (if dim0 x * dim1 x * dim2 x = B * T * n * hdim
      then Inr (split_heads x hdim)
      else Inl RuntimeError)"

definition merge_heads :: "tensor4 \<Rightarrow> nat \<Rightarrow> nat \<Rightarrow> nat \<Rightarrow> nat \<Rightarrow> error + real tensor3" where
  \<comment> \<open>\<open>y.transpose(1, 2).contiguous().view(B, T, -1)\<close> for \<open>y\<close> of shape \<open>(B, n, T, hd)\<close>:
      the last size cannot be inferred when \<open>B * T = 0\<close>.\<close>
  "merge_heads y B T n hdim =
     (if B * T = 0 then Inl RuntimeError
      else Inr (tensor3 B T (n * hdim) (\<lambda>b t c. y b (c div hdim) t (c mod hdim))))"

definition attention_scores :: "tensor4 \<Rightarrow> tensor4 \<Rightarrow> nat \<Rightarrow> tensor4" where
  \<comment> \<open>\<open>torch.matmul(q, k.transpose(-1, -2)) / (head_dim ** 0.5)\<close>.\<close>
  "attention_scores q k head_dim =
     (\<lambda>b h t s. sum_below head_dim (\<lambda>d. q b h t d * k b h s d) / sqrt (real head_dim))"

definition softmax_last :: "nat \<Rightarrow> tensor4 \<Rightarrow> tensor4" where
  \<comment> \<open>Softmax over the last axis, of size \<open>n\<close>.\<close>
  "softmax_last n a = (\<lambda>b h t s. exp (a b h t s) / sum_below n (\<lambda>s'. exp (a b h t s')))"

definition attention_values :: "tensor4 \<Rightarrow> tensor4 \<Rightarrow> nat \<Rightarrow> tensor4" where
  \<comment> \<open>\<open>torch.matmul(attn, v)\<close> for \<open>attn\<close> of shape \<open>(B, n, T, T)\<close>.\<close>
  "attention_values attn v seq_length =
     (\<lambda>b h t d. sum_below seq_length (\<lambda>s. attn b h t s * v b h s d))"

definition MultiHeadSelfAttention_forward ::
  "MultiHeadSelfAttention \<Rightarrow> real tensor3 \<Rightarrow> error + real tensor3" where
  "MultiHeadSelfAttention_forward self x =
     (let num_heads = MHSA_num_heads self;
          attn_dim = MHSA_attn_dim self;
          batch_size = dim0 x;
          seq_length = dim1 x
      in if num_heads = 0 then Inl ZeroDivisionError
      else
        let head_dim = attn_dim div num_heads in
        bindE (nn_Linear_forward (attn_q self) x) (\<lambda>qx.
        bindE (view_heads qx batch_size seq_length num_heads head_dim) (\<lambda>q.
        bindE (nn_Linear_forward (attn_k self) x) (\<lambda>kx.
        bindE (view_heads kx batch_size seq_length num_heads head_dim) (\<lambda>k.
        bindE (nn_Linear_forward (attn_v self) x) (\<lambda>vx.
        bindE (view_heads vx batch_size seq_length num_heads head_dim) (\<lambda>v.
        let attn = attention_scores q k head_dim;
            attn = softmax_last seq_length attn;
            out = attention_values attn v seq_length
        in
        bindE (merge_heads out batch_size seq_length num_heads head_dim) (\<lambda>out.
        bindE (nn_Linear_forward (attn_o self) out) (\<lambda>out.
        nn_LayerNorm_forward (MHSA_LayerNorm self) out)))))))))"

subsection \<open>Position-wise transform block\<close>

record FFN =
  FFN_attn_output_dim :: nat
  FFN_hidden_size :: nat
  FFN_ffn_layer_norm_eps :: real
  FFN_dropout_prob :: real
  fc1 :: nn_Linear
  fc2 :: nn_Linear
  FFN_gelu :: "real \<Rightarrow> real"
  output_dropout :: nn_Dropout
  FFN_LayerNorm :: nn_LayerNorm

definition FFN_init :: "BgeConfig \<Rightarrow> (string \<Rightarrow> nat list \<Rightarrow> real) \<Rightarrow> error + FFN" where
  "FFN_init config \<theta> =
     bindE (nn_Dropout_init (dropout_prob config)) (\<lambda>dropout.
       Inr \<lparr>FFN_attn_output_dim = attn_output_dim config,
            FFN_hidden_size = hidden_size config,
            FFN_ffn_layer_norm_eps = ffn_layer_norm_eps config,
            FFN_dropout_prob = dropout_prob config,
            fc1 = nn_Linear_init (attn_output_dim config) (hidden_size config)
                    (\<theta> ''ffn.fc1.weight'') (\<theta> ''ffn.fc1.bias''),
            fc2 = nn_Linear_init (hidden_size config) (attn_output_dim config)
                    (\<theta> ''ffn.fc2.weight'') (\<theta> ''ffn.fc2.bias''),
            FFN_gelu = gelu,
            output_dropout = dropout,
            FFN_LayerNorm =
              nn_LayerNorm_init (attn_output_dim config) (ffn_layer_norm_eps config)
                (\<theta> ''ffn.LayerNorm.weight'') (\<theta> ''ffn.LayerNorm.bias'')\<rparr>)"

definition FFN_forward ::
  "FFN \<Rightarrow> real tensor3 \<Rightarrow> generator \<Rightarrow> (error + real tensor3) \<times> generator" where
  "FFN_forward self x g =
     (case bindE (nn_Linear_forward (fc1 self) x) (\<lambda>out.
             let out = map3 relu out;
                 out = map3 (FFN_gelu self) out
             in bindE (nn_Linear_forward (fc2 self) out) (\<lambda>out. add3 out x)) of
        Inl e \<Rightarrow> (Inl e, g)
      | Inr out \<Rightarrow>
          (case nn_Dropout_forward (output_dropout self) out g of
             (out, g') \<Rightarrow> (nn_LayerNorm_forward (FFN_LayerNorm self) out, g')))"

subsection \<open>Encoder layer\<close>

record BgeAttention =
  attention :: MultiHeadSelfAttention
  ffn :: FFN

definition BgeAttention_init ::
  "BgeConfig \<Rightarrow> (string \<Rightarrow> nat list \<Rightarrow> real) \<Rightarrow> error + BgeAttention" where
  "BgeAttention_init config \<theta> =
     bindE (FFN_init config \<theta>) (\<lambda>f.
       Inr \<lparr>attention = MultiHeadSelfAttention_init config \<theta>, ffn = f\<rparr>)"

definition BgeAttention_forward ::
  "BgeAttention \<Rightarrow> real tensor3 \<Rightarrow> generator \<Rightarrow> (error + real tensor3) \<times> generator" where
  "BgeAttention_forward self x g =
     (case MultiHeadSelfAttention_forward (attention self) x of
        Inl e \<Rightarrow> (Inl e, g)
      | Inr out \<Rightarrow> FFN_forward (ffn self) out g)"

subsection \<open>Encoder stack and retrieval heads\<close>

text \<open>
  An instance of \<open>BgeM3\<close>. The fields of the first group are the attributes the
  constructor assigns. \<open>vocab_size\<close> and \<open>tokenizer\<close> are attributes the sparse head
  reads; \<open>None\<close> is an attribute that no one has assigned, and reading it raises.
\<close>

record BgeM3 =
  config :: BgeConfig
  M3_num_of_attn_layers :: nat
  embedding :: BgeM3Embedding
  attentions :: "BgeAttention list"
  sparse_linear :: nn_Linear
  colbert_linear :: nn_Linear
  vocab_size :: "nat option"
  tokenizer :: "Tokenizer option"

definition layer_params :: "state_dict \<Rightarrow> nat \<Rightarrow> string \<Rightarrow> nat list \<Rightarrow> real" where
  \<comment> \<open>The parameters of layer \<open>l\<close> of the stack.\<close>
  "layer_params \<theta> l name idx = \<theta> (''attentions.'' @ name) (l # idx)"

definition BgeM3_init :: "BgeConfig \<Rightarrow> state_dict \<Rightarrow> error + BgeM3" where
  "BgeM3_init cfg \<theta> =
     bindE (mapE (\<lambda>l. BgeAttention_init cfg (layer_params \<theta> l))
              [0..<num_of_attn_layers cfg]) (\<lambda>layers.
       Inr \<lparr>config = cfg,
            M3_num_of_attn_layers = num_of_attn_layers cfg,
            embedding = BgeM3Embedding_init cfg \<theta>,
            attentions = layers,
            sparse_linear = nn_Linear_init (embed_dim cfg) (word_size cfg)
                              (\<theta> ''sparse_linear.weight'') (\<theta> ''sparse_linear.bias''),
            colbert_linear = nn_Linear_init (embed_dim cfg) (embed_dim cfg)
                               (\<theta> ''colbert_linear.weight'') (\<theta> ''colbert_linear.bias''),
            vocab_size = None,
            tokenizer = None\<rparr>)"

definition sparse_token_weights :: "BgeM3 \<Rightarrow> fval tensor3 \<Rightarrow> error + fval tensor3" where
  \<comment> \<open>\<open>torch.relu(self.sparse_linear(hidden_state))\<close>.\<close>
  "sparse_token_weights self hidden_state =
     bindE (nn_Linear_forward32 (sparse_linear self) hidden_state) (\<lambda>y. Inr (map3 frelu y))"

definition sparse_scatter ::
  "nat \<Rightarrow> int tensor2 \<Rightarrow> fval tensor3 \<Rightarrow> error + fval tensor3" where
  \<comment> \<open>The zero-initialised buffer of width \<open>n\<close> and the scatter into it.\<close>
  "sparse_scatter n input_ids token_weights =
     (let sparse_embedding = tensor3 (rows input_ids) (cols input_ids) n (\<lambda>b t v. 0)
      in scatter_last sparse_embedding input_ids token_weights)"

definition BgeM3_sparse_embedding ::
  "BgeM3 \<Rightarrow> fval tensor3 \<Rightarrow> int tensor2 \<Rightarrow> error + fval tensor2" where
  \<comment> \<open>\<open>_sparse_embedding\<close> with \<open>return_embedding\<close> at its default, as \<open>forward\<close> calls it.\<close>
  "BgeM3_sparse_embedding self hidden_state input_ids =
     bindE (sparse_token_weights self hidden_state) (\<lambda>token_weights.
     bindE (getattr (vocab_size self) ''vocab_size'') (\<lambda>n.
     bindE (sparse_scatter n input_ids token_weights) (\<lambda>sparse_embedding.
     bindE (getattr (tokenizer self) ''tokenizer'') (\<lambda>tok.
     let unused_tokens =
           [cls_token_id tok, eos_token_id tok, pad_token_id tok, unk_token_id tok] in
     bindE (max_dim1 sparse_embedding) (\<lambda>sparse_embedding.
     scale_columns sparse_embedding unused_tokens 0)))))"

definition BgeM3_colbert_embedding ::
  "BgeM3 \<Rightarrow> fval tensor3 \<Rightarrow> int tensor2 \<Rightarrow> error + fval tensor3" where
  "BgeM3_colbert_embedding self last_hidden_state msk =
     bindE (nn_Linear_forward32 (colbert_linear self) (drop_first last_hidden_state))
       (\<lambda>colbert_vecs. fmul3 colbert_vecs (mask_float msk))"

fun attentions_loop ::
  "BgeAttention list \<Rightarrow> real tensor3 \<Rightarrow> generator \<Rightarrow> (error + real tensor3) \<times> generator" where
  "attentions_loop [] out g = (Inr out, g)"
| "attentions_loop (a # as) out g =
     (case BgeAttention_forward a out g of
        (Inl e, g') \<Rightarrow> (Inl e, g')
      | (Inr out', g') \<Rightarrow> attentions_loop as out' g')"

definition BgeM3_heads ::
  "BgeM3 \<Rightarrow> real tensor3 \<Rightarrow> int tensor2 \<Rightarrow> error + (real tensor2 \<times> fval tensor2 \<times> fval tensor3)" where
  \<comment> \<open>The part of \<open>forward\<close> after the stack: the pooling and the two head calls. The
      two heads read the hidden state as the floating-point tensor it is stored as.\<close>
  "BgeM3_heads self out input_ids =
     bindE (select_position out 0) (\<lambda>dense_retrieval_vec.
     bindE (BgeM3_sparse_embedding self (map3 float32 out) input_ids) (\<lambda>sparse_retrieval_vec.
     bindE (BgeM3_colbert_embedding self (map3 float32 out) input_ids) (\<lambda>colbert_retrieval_vec.
       Inr (dense_retrieval_vec, sparse_retrieval_vec, colbert_retrieval_vec))))"

definition BgeM3_forward ::
  "BgeM3 \<Rightarrow> int tensor2 \<Rightarrow> int tensor2 option \<Rightarrow> generator
     \<Rightarrow> (error + (real tensor2 \<times> fval tensor2 \<times> fval tensor3)) \<times> generator" where
  "BgeM3_forward self input_ids token_type_ids g =
     (case BgeM3Embedding_forward (embedding self) input_ids token_type_ids of
        Inl e \<Rightarrow> (Inl e, g)
      | Inr emb \<Rightarrow>
          (case attentions_loop (attentions self) emb g of
             (Inl e, g') \<Rightarrow> (Inl e, g')
           | (Inr out, g') \<Rightarrow> (BgeM3_heads self out input_ids, g')))"

definition reaches_sparse_head ::
  "BgeM3 \<Rightarrow> int tensor2 \<Rightarrow> int tensor2 option \<Rightarrow> generator \<Rightarrow> bool" where
  \<comment> \<open>The call gets as far as the call of the sparse head: the embedding and the stack
      return, and the hidden state has a position 0 to pool.\<close>
  "reaches_sparse_head self input_ids token_type_ids g =
     (case BgeM3Embedding_forward (embedding self) input_ids token_type_ids of
        Inl e \<Rightarrow> False
      | Inr emb \<Rightarrow>
          (case attentions_loop (attentions self) emb g of
             (Inl e, g') \<Rightarrow> False
           | (Inr out, g') \<Rightarrow> 0 < dim1 out))"

text \<open>
  \<open>nn.Module.eval()\<close>: every module of the model leaves training mode. Dropout is the
  only module whose forward pass reads the flag.
\<close>

definition FFN_eval :: "FFN \<Rightarrow> FFN" where
  "FFN_eval f = f\<lparr>output_dropout := (output_dropout f)\<lparr>training := False\<rparr>\<rparr>"

definition BgeM3_eval :: "BgeM3 \<Rightarrow> BgeM3" where
  "BgeM3_eval self =
     self\<lparr>attentions := map (\<lambda>a. a\<lparr>ffn := FFN_eval (ffn a)\<rparr>) (attentions self)\<rparr>"

definition inference_mode :: "BgeM3 \<Rightarrow> bool" where
  \<comment> \<open>No dropout layer of the model is in training mode.\<close>
  "inference_mode self =
     list_all (\<lambda>a. \<not> training (output_dropout (ffn a))) (attentions self)"

section \<open>The position-wise transform block, as the specification words it\<close>

text \<open>
  The specification describes the block on the vector of one position: an affine
  projection to the hidden size, a rectifying nonlinearity, a second, smoother
  nonlinearity on top of it, an affine projection back, the addition of the block's input,
  dropout, and a normalization with scale, shift and epsilon. The definitions below follow
  these words, step by step, on a vector read by index; they are compared with
  \<open>FFN_forward\<close> further down.
\<close>

definition affine_spec :: "nn_Linear \<Rightarrow> (nat \<Rightarrow> real) \<Rightarrow> nat \<Rightarrow> real" where
  "affine_spec L u j = sum_below (in_features L) (\<lambda>i. u i * lin_weight L j i) + lin_bias L j"

definition pre_dropout_spec :: "FFN \<Rightarrow> (nat \<Rightarrow> real) \<Rightarrow> nat \<Rightarrow> real" where
  \<comment> \<open>The steps before dropout: projection, ReLU, GELU, projection, residual.\<close>
  "pre_dropout_spec f u j =
     affine_spec (fc2 f) (\<lambda>i. gelu (relu (affine_spec (fc1 f) u i))) j + u j"

definition normalize_spec :: "nn_LayerNorm \<Rightarrow> nat \<Rightarrow> (nat \<Rightarrow> real) \<Rightarrow> nat \<Rightarrow> real" where
  \<comment> \<open>Subtract the mean over the \<open>n\<close> entries, divide by the standard deviation with
      epsilon added under the root, then scale and shift.\<close>
  "normalize_spec N n u j =
     (let mean = sum_below n u / real n;
          var = sum_below n (\<lambda>i. (u i - mean)\<^sup>2) / real n
      in (u j - mean) / sqrt (var + ln_eps N) * ln_weight N j + ln_bias N j)"

definition transform_block_spec ::
  "FFN \<Rightarrow> real tensor3 \<Rightarrow> generator \<Rightarrow> (error + real tensor3) \<times> generator" where
  \<comment> \<open>The block on a whole tensor: the steps before dropout at every position, dropout on
      the result, the normalization at every position.\<close>
  "transform_block_spec f x g =
     (case nn_Dropout_forward (output_dropout f)
             (tensor3 (dim0 x) (dim1 x) (dim2 x) (\<lambda>b t. pre_dropout_spec f (at3 x b t))) g of
        (dropped, g') \<Rightarrow>
          (Inr (tensor3 (dim0 x) (dim1 x) (dim2 x)
                 (\<lambda>b t. normalize_spec (FFN_LayerNorm f) (dim2 x) (at3 dropped b t))), g'))"

section \<open>The multi-vector head, as the specification words it\<close>

text \<open>
  The specification describes the output of the head under an all-true mask as the
  affine-projected values of the positions 1 to \<open>T - 1\<close> of the hidden state. The
  definitions below follow these words: the projection of one position's vector, and the
  tensor whose entry \<open>t\<close> is the projection of position \<open>t + 1\<close>. They are compared with
  \<open>BgeM3_colbert_embedding\<close> further down.
\<close>

definition affine32 :: "nn_Linear \<Rightarrow> (nat \<Rightarrow> fval) \<Rightarrow> nat \<Rightarrow> fval" where
  "affine32 L u j =
     fadd (fsum_below (in_features L) (\<lambda>i. fmul (u i) (float32 (lin_weight L j i))))
          (float32 (lin_bias L j))"

definition projected_positions :: "nn_Linear \<Rightarrow> fval tensor3 \<Rightarrow> fval tensor3" where
  "projected_positions L h =
     tensor3 (dim0 h) (dim1 h - 1) (out_features L) (\<lambda>b t. affine32 L (at3 h b (t + 1)))"

section \<open>Example inputs\<close>

definition example_config :: BgeConfig where
  "example_config =
     \<lparr>word_size = 4096, embed_dim = 8, position_size = 16, layer_norm_eps = 1 / 100000,
      attn_dim = 8, attn_output_dim = 8, attn_layer_norm_eps = 1 / 100000, num_heads = 2,
      hidden_size = 16, ffn_layer_norm_eps = 1 / 100000, dropout_prob = 1 / 10,
      num_of_attn_layers = 2\<rparr>"

definition example_ids :: "int tensor2" where
  \<comment> \<open>One sequence of four token ids.\<close>
  "example_ids = tensor2 1 4 (\<lambda>i j. [101, 2045, 2003, 102] ! j)"

definition unit_params :: state_dict where
  "unit_params = (\<lambda>name idx. 1)"

definition half_generator :: generator where
  "half_generator = (\<lambda>i. 1 / 2)"

definition small_config :: BgeConfig where
  \<comment> \<open>Width 1, a vocabulary of six entries, no encoder layer.\<close>
  "small_config =
     \<lparr>word_size = 6, embed_dim = 1, position_size = 4, layer_norm_eps = 1 / 100000,
      attn_dim = 1, attn_output_dim = 1, attn_layer_norm_eps = 1 / 100000, num_heads = 1,
      hidden_size = 1, ffn_layer_norm_eps = 1 / 100000, dropout_prob = 0,
      num_of_attn_layers = 0\<rparr>"

definition small_params :: state_dict where
  \<comment> \<open>The sparse projection gives vocabulary entry \<open>j\<close> the weight \<open>j + 1\<close>; the multi-vector
      projection is the identity; the shift of the embedding's normalization is 1; every
      other parameter is 0.\<close>
  "small_params =
     (\<lambda>name idx.
        if name = ''sparse_linear.weight'' then (case idx of [] \<Rightarrow> 0 | j # r \<Rightarrow> real (Suc j))
        else if name = ''colbert_linear.weight'' then 1
        else if name = ''embedding.LayerNorm.bias'' then 1
        else 0)"

definition small_hidden :: "real tensor3" where
  \<comment> \<open>A final hidden state of shape \<open>(1, 3, 1)\<close>, every entry 1.\<close>
  "small_hidden = tensor3 1 3 1 (\<lambda>b t d. 1)"

definition small_ids :: "int tensor2" where
  "small_ids = tensor2 1 3 (\<lambda>i j. [0, 5, 4] ! j)"

definition small_tokenizer :: Tokenizer where
  "small_tokenizer =
     \<lparr>cls_token_id = 0, eos_token_id = 2, pad_token_id = 1, unk_token_id = 3\<rparr>"

definition with_sparse_attributes :: "BgeM3 \<Rightarrow> nat \<Rightarrow> Tokenizer \<Rightarrow> BgeM3" where
  \<comment> \<open>The instance after a caller has assigned the two attributes the constructor leaves
      out: \<open>model.vocab_size = n; model.tokenizer = tok\<close>.\<close>
  "with_sparse_attributes self n tok = self\<lparr>vocab_size := Some n, tokenizer := Some tok\<rparr>"

definition mismatch_config :: BgeConfig where
  \<comment> \<open>One encoder layer whose output is wider than the embedding.\<close>
  "mismatch_config =
     \<lparr>word_size = 6, embed_dim = 1, position_size = 4, layer_norm_eps = 1 / 100000,
      attn_dim = 1, attn_output_dim = 2, attn_layer_norm_eps = 1 / 100000, num_heads = 1,
      hidden_size = 1, ffn_layer_norm_eps = 1 / 100000, dropout_prob = 0,
      num_of_attn_layers = 1\<rparr>"

definition ramp_hidden :: "fval tensor3" where
  \<comment> \<open>A final hidden state of shape \<open>(1, 3, 1)\<close> whose entry at position \<open>t\<close> is \<open>t\<close>.\<close>
  "ramp_hidden = tensor3 1 3 1 (\<lambda>b t d. Finite (real t))"

definition doubling_params :: state_dict where
  \<comment> \<open>Both heads' projections double their input; every other parameter is 0.\<close>
  "doubling_params =
     (\<lambda>name idx.
        if name = ''sparse_linear.weight'' \<or> name = ''colbert_linear.weight'' then 2 else 0)"

definition large_hidden :: "fval tensor3" where
  \<comment> \<open>A final hidden state of shape \<open>(1, 2, 1)\<close>, every entry \<open>3 * 10 ^ 38\<close>: finite, and
      more than half of the largest finite value.\<close>
  "large_hidden = tensor3 1 2 1 (\<lambda>b t d. Finite (3 * 10 ^ 38))"

definition short_ids :: "int tensor2" where
  "short_ids = tensor2 1 2 (\<lambda>i j. [0, 5] ! j)"

section \<open>Basic facts\<close>

lemma bindE_simps [simp]: "bindE (Inl e) f = Inl e" "bindE (Inr v) f = f v"
  by (simp_all add: bindE_def)

lemma bindE_Inr_iff: "bindE r f = Inr y \<longleftrightarrow> (\<exists>v. r = Inr v \<and> f v = Inr y)"
  by (cases r) simp_all

lemma tensor3_sel [simp]:
  "dim0 (tensor3 B T D f) = B" "dim1 (tensor3 B T D f) = T" "dim2 (tensor3 B T D f) = D"
  "at3 (tensor3 B T D f) b t d = (if b < B \<and> t < T \<and> d < D then f b t d else 0)"
  by (simp_all add: tensor3_def)

lemma tensor2_sel [simp]:
  "rows (tensor2 R C f) = R" "cols (tensor2 R C f) = C"
  "at2 (tensor2 R C f) i j = (if i < R \<and> j < C then f i j else 0)"
  by (simp_all add: tensor2_def)

lemma all_below_iff: "all_below n P \<longleftrightarrow> (\<forall>i<n. P i)"
  by (auto simp: all_below_def list_all_iff)

lemma getattr_None [simp]: "getattr None name = Inl (AttributeError name)"
  by (simp add: getattr_def)

lemma getattr_Some [simp]: "getattr (Some v) name = Inr v"
  by (simp add: getattr_def)

section \<open>The sparse head on an instance without \<open>vocab_size\<close>\<close>

lemma sparse_embedding_unassigned:
  assumes "vocab_size self = None"
  shows "BgeM3_sparse_embedding self h ids =
           (case sparse_token_weights self h of Inl e \<Rightarrow> Inl e
            | Inr w \<Rightarrow> Inl (AttributeError ''vocab_size''))"
  using assms by (simp add: BgeM3_sparse_embedding_def split: sum.splits)

lemma heads_unassigned:
  assumes "vocab_size self = None"
  shows "BgeM3_heads self out ids \<noteq> Inr r"
  using assms
  by (auto simp: BgeM3_heads_def sparse_embedding_unassigned bindE_Inr_iff split: sum.splits)

lemma forward_unassigned:
  assumes "vocab_size self = None"
  shows "fst (BgeM3_forward self ids tt g) \<noteq> Inr r"
  using heads_unassigned[OF assms]
  by (auto simp: BgeM3_forward_def split: sum.splits prod.splits)

section \<open>Shapes and success of the layers\<close>

lemma nn_Linear_forward_Inr:
  assumes "nn_Linear_forward L x = Inr y"
  shows "dim2 x = in_features L" "dim0 y = dim0 x" "dim1 y = dim1 x" "dim2 y = out_features L"
  using assms by (auto simp: nn_Linear_forward_def split: if_splits)

lemma nn_Linear_forward_ok:
  assumes "dim2 x = in_features L"
  shows "\<exists>y. nn_Linear_forward L x = Inr y"
  using assms by (simp add: nn_Linear_forward_def)

lemma nn_Linear_forward32_Inr:
  assumes "nn_Linear_forward32 L x = Inr y"
  shows "dim2 x = in_features L" "dim0 y = dim0 x" "dim1 y = dim1 x" "dim2 y = out_features L"
  using assms by (auto simp: nn_Linear_forward32_def split: if_splits)

lemma nn_Linear_forward32_ok:
  assumes "dim2 x = in_features L"
  shows "\<exists>y. nn_Linear_forward32 L x = Inr y"
  using assms by (simp add: nn_Linear_forward32_def)

lemma nn_LayerNorm_forward_Inr:
  assumes "nn_LayerNorm_forward N x = Inr y"
  shows "dim2 x = normalized_shape N" "dim0 y = dim0 x" "dim1 y = dim1 x" "dim2 y = dim2 x"
  using assms by (auto simp: nn_LayerNorm_forward_def split: if_splits)

lemma nn_LayerNorm_forward_ok:
  assumes "dim2 x = normalized_shape N"
  shows "\<exists>y. nn_LayerNorm_forward N x = Inr y"
  using assms by (simp add: nn_LayerNorm_forward_def)

lemma broadcast_dim_same [simp]: "broadcast_dim a a = Inr a"
  by (simp add: broadcast_dim_def)

lemma broadcast_dim_one [simp]: "broadcast_dim a 1 = Inr a" "broadcast_dim a (Suc 0) = Inr a"
  by (simp_all add: broadcast_dim_def)

lemma add3_same_shape:
  assumes "dim0 x = dim0 y" "dim1 x = dim1 y" "dim2 x = dim2 y"
  shows "\<exists>z. add3 x y = Inr z \<and> dim0 z = dim0 x \<and> dim1 z = dim1 x \<and> dim2 z = dim2 x"
  using assms by (simp add: add3_def broadcast3_def)

lemma map3_dims [simp]:
  "dim0 (map3 f x) = dim0 x" "dim1 (map3 f x) = dim1 x" "dim2 (map3 f x) = dim2 x"
  by (simp_all add: map3_def)

lemma nn_Dropout_forward_dims [simp]:
  "dim0 (fst (nn_Dropout_forward D x g)) = dim0 x"
  "dim1 (fst (nn_Dropout_forward D x g)) = dim1 x"
  "dim2 (fst (nn_Dropout_forward D x g)) = dim2 x"
  by (simp_all add: nn_Dropout_forward_def)

lemma nn_Embedding_forward_Inr:
  assumes "nn_Embedding_forward E idx = Inr y"
  shows "dim0 y = rows idx" "dim1 y = cols idx" "dim2 y = embedding_dim E"
  using assms by (auto simp: nn_Embedding_forward_def split: if_splits)

lemma embedding_forward_init:
  assumes "all_below (rows ids) (\<lambda>i. all_below (cols ids) (\<lambda>j.
             0 \<le> at2 ids i j \<and> at2 ids i j < int (word_size cfg)))"
    and "cols ids \<le> position_size cfg"
  shows "\<exists>emb. BgeM3Embedding_forward (BgeM3Embedding_init cfg \<theta>) ids None = Inr emb
           \<and> dim0 emb = rows ids \<and> dim1 emb = cols ids \<and> dim2 emb = embed_dim cfg"
  using assms
  by (simp add: BgeM3Embedding_forward_def BgeM3Embedding_init_def nn_Embedding_forward_def
      nn_Embedding_init_def nn_LayerNorm_init_def nn_LayerNorm_forward_def add3_def
      broadcast3_def zeros_like_def all_below_iff)

lemma embedding_forward_width:
  assumes "BgeM3Embedding_forward self ids tt = Inr emb"
  shows "dim2 emb = normalized_shape (Emb_LayerNorm self)"
proof -
  have "\<exists>x. nn_LayerNorm_forward (Emb_LayerNorm self) x = Inr emb"
    using assms unfolding BgeM3Embedding_forward_def Let_def bindE_Inr_iff by blast
  then show ?thesis
    using nn_LayerNorm_forward_Inr by metis
qed

lemma view_heads_ok:
  assumes "dim0 x = B" "dim1 x = T" "dim2 x = n * hdim"
  shows "view_heads x B T n hdim = Inr (split_heads x hdim)"
  using assms by (simp add: view_heads_def)

lemma merge_heads_ok:
  assumes "B * T \<noteq> 0"
  shows "\<exists>m. merge_heads y B T n hdim = Inr m
           \<and> dim0 m = B \<and> dim1 m = T \<and> dim2 m = n * hdim"
  using assms by (simp add: merge_heads_def)

lemma mhsa_forward_init:
  assumes "dim2 x = embed_dim cfg"
    and "0 < num_heads cfg"
    and "num_heads cfg * (attn_dim cfg div num_heads cfg) = attn_dim cfg"
    and "dim0 x * dim1 x \<noteq> 0"
  shows "\<exists>y. MultiHeadSelfAttention_forward (MultiHeadSelfAttention_init cfg \<theta>) x = Inr y
           \<and> dim0 y = dim0 x \<and> dim1 y = dim1 x \<and> dim2 y = attn_output_dim cfg"
proof -
  define a where "a = MultiHeadSelfAttention_init cfg \<theta>"
  define n where "n = num_heads cfg"
  define hdim where "hdim = attn_dim cfg div n"
  have sel: "MHSA_num_heads a = n" "MHSA_attn_dim a = attn_dim cfg"
    "in_features (attn_q a) = embed_dim cfg" "out_features (attn_q a) = attn_dim cfg"
    "in_features (attn_k a) = embed_dim cfg" "out_features (attn_k a) = attn_dim cfg"
    "in_features (attn_v a) = embed_dim cfg" "out_features (attn_v a) = attn_dim cfg"
    "in_features (attn_o a) = attn_dim cfg" "out_features (attn_o a) = attn_output_dim cfg"
    "normalized_shape (MHSA_LayerNorm a) = attn_output_dim cfg"
    by (simp_all add: a_def n_def MultiHeadSelfAttention_init_def nn_Linear_init_def
        nn_LayerNorm_init_def)
  have A: "attn_dim cfg = n * hdim"
    using assms(3) by (simp add: n_def hdim_def)
  obtain qx where qx: "nn_Linear_forward (attn_q a) x = Inr qx"
    using nn_Linear_forward_ok[of x "attn_q a"] assms(1) sel by auto
  obtain kx where kx: "nn_Linear_forward (attn_k a) x = Inr kx"
    using nn_Linear_forward_ok[of x "attn_k a"] assms(1) sel by auto
  obtain vx where vx: "nn_Linear_forward (attn_v a) x = Inr vx"
    using nn_Linear_forward_ok[of x "attn_v a"] assms(1) sel by auto
  have vq: "view_heads qx (dim0 x) (dim1 x) n hdim = Inr (split_heads qx hdim)"
    using nn_Linear_forward_Inr[OF qx] sel(4) A by (intro view_heads_ok) simp_all
  have vk: "view_heads kx (dim0 x) (dim1 x) n hdim = Inr (split_heads kx hdim)"
    using nn_Linear_forward_Inr[OF kx] sel(6) A by (intro view_heads_ok) simp_all
  have vv: "view_heads vx (dim0 x) (dim1 x) n hdim = Inr (split_heads vx hdim)"
    using nn_Linear_forward_Inr[OF vx] sel(8) A by (intro view_heads_ok) simp_all
  define out4 where "out4 =
    attention_values (softmax_last (dim1 x)
      (attention_scores (split_heads qx hdim) (split_heads kx hdim) hdim))
      (split_heads vx hdim) (dim1 x)"
  obtain m where m: "merge_heads out4 (dim0 x) (dim1 x) n hdim = Inr m"
    "dim0 m = dim0 x" "dim1 m = dim1 x" "dim2 m = n * hdim"
    using merge_heads_ok[OF assms(4)] by blast
  obtain z where z: "nn_Linear_forward (attn_o a) m = Inr z"
    using nn_Linear_forward_ok[of m "attn_o a"] m(4) sel(9) A by auto
  have zd: "dim0 z = dim0 x" "dim1 z = dim1 x" "dim2 z = attn_output_dim cfg"
    using nn_Linear_forward_Inr[OF z] m sel(10) by simp_all
  obtain y where y: "nn_LayerNorm_forward (MHSA_LayerNorm a) z = Inr y"
    using nn_LayerNorm_forward_ok[of z "MHSA_LayerNorm a"] zd sel(11) by auto
  have yd: "dim0 y = dim0 x" "dim1 y = dim1 x" "dim2 y = attn_output_dim cfg"
    using nn_LayerNorm_forward_Inr[OF y] zd by simp_all
  have n0: "n \<noteq> 0"
    using assms(2) by (simp add: n_def)
  have "MultiHeadSelfAttention_forward a x = Inr y"
    unfolding MultiHeadSelfAttention_forward_def Let_def sel(1,2) hdim_def[symmetric]
    by (simp only: n0 if_False qx kx vx vq vk vv bindE_simps out4_def[symmetric] m(1) z y)
  then show ?thesis
    using yd unfolding a_def by blast
qed

lemma FFN_forward_ok:
  assumes "in_features (fc1 f) = dim2 x"
    and "out_features (fc1 f) = in_features (fc2 f)"
    and "out_features (fc2 f) = dim2 x"
    and "normalized_shape (FFN_LayerNorm f) = dim2 x"
  shows "\<exists>y g'. FFN_forward f x g = (Inr y, g')
           \<and> dim0 y = dim0 x \<and> dim1 y = dim1 x \<and> dim2 y = dim2 x"
proof -
  obtain h1 where h1: "nn_Linear_forward (fc1 f) x = Inr h1"
    using nn_Linear_forward_ok[of x "fc1 f"] assms(1) by auto
  note h1d = nn_Linear_forward_Inr[OF h1]
  obtain h2 where h2: "nn_Linear_forward (fc2 f) (map3 (FFN_gelu f) (map3 relu h1)) = Inr h2"
    using nn_Linear_forward_ok[of "map3 (FFN_gelu f) (map3 relu h1)" "fc2 f"] h1d assms(2)
    by auto
  have h2d: "dim0 h2 = dim0 x" "dim1 h2 = dim1 x" "dim2 h2 = dim2 x"
    using nn_Linear_forward_Inr[OF h2] h1d assms(3) by simp_all
  obtain s where s: "add3 h2 x = Inr s" "dim0 s = dim0 x" "dim1 s = dim1 x" "dim2 s = dim2 x"
    using add3_same_shape[OF h2d] h2d by auto
  obtain d g' where dg: "nn_Dropout_forward (output_dropout f) s g = (d, g')"
    by (cases "nn_Dropout_forward (output_dropout f) s g")
  have dd: "dim0 d = dim0 x" "dim1 d = dim1 x" "dim2 d = dim2 x"
    using nn_Dropout_forward_dims[of "output_dropout f" s g] s(2-4) by (simp_all add: dg)
  obtain y where y: "nn_LayerNorm_forward (FFN_LayerNorm f) d = Inr y"
    using nn_LayerNorm_forward_ok[of d "FFN_LayerNorm f"] dd assms(4) by auto
  have yd: "dim0 y = dim0 x" "dim1 y = dim1 x" "dim2 y = dim2 x"
    using nn_LayerNorm_forward_Inr[OF y] dd by simp_all
  have "FFN_forward f x g = (Inr y, g')"
    unfolding FFN_forward_def Let_def
    by (simp only: h1 h2 s(1) dg y bindE_simps sum.case prod.case)
  then show ?thesis using yd by blast
qed

lemma FFN_init_Inr:
  assumes "FFN_init cfg \<theta> = Inr f"
  shows "in_features (fc1 f) = attn_output_dim cfg"
    and "out_features (fc1 f) = hidden_size cfg"
    and "in_features (fc2 f) = hidden_size cfg"
    and "out_features (fc2 f) = attn_output_dim cfg"
    and "normalized_shape (FFN_LayerNorm f) = attn_output_dim cfg"
    and "FFN_gelu f = gelu"
  using assms
  by (auto simp: FFN_init_def bindE_Inr_iff nn_Linear_init_def nn_LayerNorm_init_def)

lemma FFN_forward_width:
  assumes "FFN_forward f x g = (Inr y, g')"
  shows "dim2 y = normalized_shape (FFN_LayerNorm f)"
proof -
  from assms obtain z where "nn_LayerNorm_forward (FFN_LayerNorm f) z = Inr y"
    by (auto simp: FFN_forward_def split: sum.splits prod.splits)
  then show ?thesis
    using nn_LayerNorm_forward_Inr[of "FFN_LayerNorm f" z y] by simp
qed

lemma BgeAttention_init_Inr:
  assumes "BgeAttention_init cfg \<theta> = Inr a"
  shows "attention a = MultiHeadSelfAttention_init cfg \<theta>" "FFN_init cfg \<theta> = Inr (ffn a)"
  using assms by (auto simp: BgeAttention_init_def bindE_Inr_iff)

lemma BgeAttention_forward_init:
  assumes "BgeAttention_init cfg \<theta> = Inr a"
    and "dim2 x = embed_dim cfg"
    and "0 < num_heads cfg"
    and "num_heads cfg * (attn_dim cfg div num_heads cfg) = attn_dim cfg"
    and "dim0 x * dim1 x \<noteq> 0"
  shows "\<exists>y g'. BgeAttention_forward a x g = (Inr y, g')
           \<and> dim0 y = dim0 x \<and> dim1 y = dim1 x \<and> dim2 y = attn_output_dim cfg"
proof -
  obtain h where h: "MultiHeadSelfAttention_forward (attention a) x = Inr h"
    "dim0 h = dim0 x" "dim1 h = dim1 x" "dim2 h = attn_output_dim cfg"
    using mhsa_forward_init[OF assms(2-5)] BgeAttention_init_Inr(1)[OF assms(1)] by metis
  note f = FFN_init_Inr[OF BgeAttention_init_Inr(2)[OF assms(1)]]
  obtain y g' where "FFN_forward (ffn a) h g = (Inr y, g')"
    "dim0 y = dim0 h" "dim1 y = dim1 h" "dim2 y = dim2 h"
    using FFN_forward_ok[of "ffn a" h g] f h by auto
  then show ?thesis using h by (simp add: BgeAttention_forward_def)
qed

lemma BgeAttention_forward_width:
  assumes "BgeAttention_init cfg \<theta> = Inr a" and "BgeAttention_forward a x g = (Inr y, g')"
  shows "dim2 y = attn_output_dim cfg"
  using assms FFN_forward_width[of "ffn a" _ g y g']
    FFN_init_Inr(5)[OF BgeAttention_init_Inr(2)[OF assms(1)]]
  by (auto simp: BgeAttention_forward_def split: sum.splits)

lemma attentions_loop_init:
  assumes "mapE (\<lambda>l. BgeAttention_init cfg (P l)) ls = Inr layers"
    and "attn_output_dim cfg = embed_dim cfg"
    and "0 < num_heads cfg"
    and "num_heads cfg * (attn_dim cfg div num_heads cfg) = attn_dim cfg"
    and "dim2 x = embed_dim cfg"
    and "dim0 x * dim1 x \<noteq> 0"
  shows "\<exists>out g'. attentions_loop layers x g = (Inr out, g')
           \<and> dim0 out = dim0 x \<and> dim1 out = dim1 x \<and> dim2 out = embed_dim cfg"
  using assms(1,5,6)
proof (induction ls arbitrary: layers x g)
  case Nil
  then show ?case by simp
next
  case (Cons l ls)
  from Cons.prems(1) obtain a rest where a: "BgeAttention_init cfg (P l) = Inr a"
    and rest: "mapE (\<lambda>l. BgeAttention_init cfg (P l)) ls = Inr rest"
    and layers: "layers = a # rest"
    by (auto simp: bindE_Inr_iff)
  obtain y g1 where y: "BgeAttention_forward a x g = (Inr y, g1)"
    "dim0 y = dim0 x" "dim1 y = dim1 x" "dim2 y = attn_output_dim cfg"
    using BgeAttention_forward_init[OF a Cons.prems(2) assms(3,4) Cons.prems(3)] by blast
  have y2: "dim2 y = embed_dim cfg" and y0: "dim0 y * dim1 y \<noteq> 0"
    using y Cons.prems(3) assms(2) by simp_all
  obtain out g' where out: "attentions_loop rest y g1 = (Inr out, g')"
    "dim0 out = dim0 y" "dim1 out = dim1 y" "dim2 out = embed_dim cfg"
    using Cons.IH[OF rest y2 y0, of g1] by blast
  have "attentions_loop layers x g = (Inr out, g')"
    using y(1) out(1) layers by simp
  then show ?case using out y by simp
qed

lemma attentions_loop_width:
  assumes "mapE (\<lambda>l. BgeAttention_init cfg (P l)) ls = Inr layers"
    and "attentions_loop layers x g = (Inr out, g')"
  shows "dim2 out = (if ls = [] then dim2 x else attn_output_dim cfg)"
  using assms
proof (induction ls arbitrary: layers x g)
  case Nil
  then show ?case by simp
next
  case (Cons l ls)
  from Cons.prems(1) obtain a rest where a: "BgeAttention_init cfg (P l) = Inr a"
    and rest: "mapE (\<lambda>l. BgeAttention_init cfg (P l)) ls = Inr rest"
    and layers: "layers = a # rest"
    by (auto simp: bindE_Inr_iff)
  from Cons.prems(2) layers obtain y g1 where y: "BgeAttention_forward a x g = (Inr y, g1)"
    and loop: "attentions_loop rest y g1 = (Inr out, g')"
    by (auto split: sum.splits prod.splits)
  have "dim2 y = attn_output_dim cfg"
    using BgeAttention_forward_width[OF a y] .
  then show ?case using Cons.IH[OF rest loop] by simp
qed

section \<open>Construction and the forward pass of a constructed model\<close>

lemma mapE_ok:
  assumes "\<And>x. x \<in> set xs \<Longrightarrow> \<exists>y. f x = Inr y"
  shows "\<exists>ys. mapE f xs = Inr ys"
  using assms
proof (induction xs)
  case Nil
  then show ?case by simp
next
  case (Cons x xs)
  obtain y where y: "f x = Inr y" using Cons.prems[of x] by auto
  obtain ys where ys: "mapE f xs = Inr ys" using Cons.IH Cons.prems by auto
  show ?case by (simp add: y ys)
qed

lemma FFN_init_ok:
  assumes "0 \<le> dropout_prob cfg" "dropout_prob cfg \<le> 1"
  shows "\<exists>f. FFN_init cfg \<theta> = Inr f"
  using assms by (simp add: FFN_init_def nn_Dropout_init_def)

lemma BgeM3_init_ok:
  assumes "0 \<le> dropout_prob cfg" "dropout_prob cfg \<le> 1"
  shows "\<exists>self. BgeM3_init cfg \<theta> = Inr self"
proof -
  have "\<exists>a. BgeAttention_init cfg (layer_params \<theta> l) = Inr a" for l
    using FFN_init_ok[OF assms, of "layer_params \<theta> l"]
    by (auto simp: BgeAttention_init_def)
  then obtain layers where
    "mapE (\<lambda>l. BgeAttention_init cfg (layer_params \<theta> l)) [0..<num_of_attn_layers cfg]
       = Inr layers"
    using mapE_ok[of "[0..<num_of_attn_layers cfg]"
        "\<lambda>l. BgeAttention_init cfg (layer_params \<theta> l)"] by blast
  then show ?thesis by (simp add: BgeM3_init_def)
qed

lemma BgeM3_init_Inr:
  assumes "BgeM3_init cfg \<theta> = Inr self"
  shows "vocab_size self = None"
    and "tokenizer self = None"
    and "embedding self = BgeM3Embedding_init cfg \<theta>"
    and "mapE (\<lambda>l. BgeAttention_init cfg (layer_params \<theta> l)) [0..<num_of_attn_layers cfg]
           = Inr (attentions self)"
    and "sparse_linear self = nn_Linear_init (embed_dim cfg) (word_size cfg)
           (\<theta> ''sparse_linear.weight'') (\<theta> ''sparse_linear.bias'')"
    and "colbert_linear self = nn_Linear_init (embed_dim cfg) (embed_dim cfg)
           (\<theta> ''colbert_linear.weight'') (\<theta> ''colbert_linear.bias'')"
  using assms by (auto simp: BgeM3_init_def bindE_Inr_iff)

lemma nn_Linear_init_sel [simp]:
  "in_features (nn_Linear_init a b w c) = a" "out_features (nn_Linear_init a b w c) = b"
  "lin_weight (nn_Linear_init a b w c) j i = w [j, i]" "lin_bias (nn_Linear_init a b w c) j = c [j]"
  by (simp_all add: nn_Linear_init_def)

lemma select_position_ok:
  assumes "0 < dim1 x"
  shows "select_position x 0 = Inr (tensor2 (dim0 x) (dim2 x) (\<lambda>b d. at3 x b 0 d))"
  using assms by (simp add: select_position_def)

lemma sparse_token_weights_ok:
  assumes "dim2 h = in_features (sparse_linear self)"
  shows "\<exists>w. sparse_token_weights self h = Inr w \<and> dim0 w = dim0 h \<and> dim1 w = dim1 h
           \<and> dim2 w = out_features (sparse_linear self)"
  using assms by (simp add: sparse_token_weights_def nn_Linear_forward32_def)

lemma heads_attribute_error:
  assumes "vocab_size self = None"
    and "0 < dim1 out"
    and "dim2 out = in_features (sparse_linear self)"
  shows "BgeM3_heads self out ids = Inl (AttributeError ''vocab_size'')"
proof -
  have "dim2 (map3 float32 out) = in_features (sparse_linear self)"
    using assms(3) by simp
  then obtain w where "sparse_token_weights self (map3 float32 out) = Inr w"
    using sparse_token_weights_ok by blast
  then have "BgeM3_sparse_embedding self (map3 float32 out) ids
               = Inl (AttributeError ''vocab_size'')"
    by (simp add: sparse_embedding_unassigned[OF assms(1)])
  then show ?thesis
    by (simp add: BgeM3_heads_def select_position_ok[OF assms(2)])
qed

lemma heads_width_mismatch:
  assumes "0 < dim1 out"
    and "dim2 out \<noteq> in_features (sparse_linear self)"
  shows "BgeM3_heads self out ids = Inl RuntimeError"
  using assms
  by (simp add: BgeM3_heads_def select_position_ok BgeM3_sparse_embedding_def
      sparse_token_weights_def nn_Linear_forward32_def)

lemma forward_reaches_heads:
  assumes "BgeM3Embedding_forward (embedding self) ids tt = Inr emb"
    and "attentions_loop (attentions self) emb g = (Inr out, g')"
  shows "BgeM3_forward self ids tt g = (BgeM3_heads self out ids, g')"
  using assms by (simp add: BgeM3_forward_def)

lemma init_final_width:
  assumes "BgeM3_init cfg \<theta> = Inr self"
    and "BgeM3Embedding_forward (embedding self) ids tt = Inr emb"
    and "attentions_loop (attentions self) emb g = (Inr out, g')"
    and "num_of_attn_layers cfg = 0 \<or> attn_output_dim cfg = embed_dim cfg"
  shows "dim2 out = embed_dim cfg"
proof -
  have "dim2 emb = embed_dim cfg"
    using embedding_forward_width[OF assms(2)] BgeM3_init_Inr(3)[OF assms(1)]
    by (simp add: BgeM3Embedding_init_def nn_LayerNorm_init_def)
  then show ?thesis
    using attentions_loop_width[OF BgeM3_init_Inr(4)[OF assms(1)] assms(3)] assms(4)
    by (auto split: if_splits)
qed

lemma init_final_width_layers:
  assumes "BgeM3_init cfg \<theta> = Inr self"
    and "attentions_loop (attentions self) emb g = (Inr out, g')"
    and "0 < num_of_attn_layers cfg"
  shows "dim2 out = attn_output_dim cfg"
  using attentions_loop_width[OF BgeM3_init_Inr(4)[OF assms(1)] assms(2)] assms(3)
  by simp

lemma reaches_sparse_head_iff:
  "reaches_sparse_head self ids tt g \<longleftrightarrow>
     (\<exists>emb out g'. BgeM3Embedding_forward (embedding self) ids tt = Inr emb
        \<and> attentions_loop (attentions self) emb g = (Inr out, g') \<and> 0 < dim1 out)"
  by (auto simp: reaches_sparse_head_def split: sum.splits prod.splits)

lemma encoder_init_ok:
  assumes "BgeM3_init cfg \<theta> = Inr self"
    and "attn_output_dim cfg = embed_dim cfg"
    and "0 < num_heads cfg"
    and "num_heads cfg * (attn_dim cfg div num_heads cfg) = attn_dim cfg"
    and "all_below (rows ids) (\<lambda>i. all_below (cols ids) (\<lambda>j.
             0 \<le> at2 ids i j \<and> at2 ids i j < int (word_size cfg)))"
    and "0 < rows ids" "0 < cols ids" "cols ids \<le> position_size cfg"
  shows "\<exists>emb out g'. BgeM3Embedding_forward (embedding self) ids None = Inr emb
           \<and> attentions_loop (attentions self) emb g = (Inr out, g')
           \<and> dim0 out = rows ids \<and> dim1 out = cols ids \<and> dim2 out = embed_dim cfg"
proof -
  obtain emb where emb: "BgeM3Embedding_forward (embedding self) ids None = Inr emb"
    "dim0 emb = rows ids" "dim1 emb = cols ids" "dim2 emb = embed_dim cfg"
    using embedding_forward_init[OF assms(5,8), of \<theta>] BgeM3_init_Inr(3)[OF assms(1)] by auto
  have ne: "dim0 emb * dim1 emb \<noteq> 0"
    using emb assms(6,7) by simp
  obtain out g' where "attentions_loop (attentions self) emb g = (Inr out, g')"
    "dim0 out = dim0 emb" "dim1 out = dim1 emb" "dim2 out = embed_dim cfg"
    using attentions_loop_init[OF BgeM3_init_Inr(4)[OF assms(1)] assms(2,3,4) emb(4) ne, of g]
    by blast
  then show ?thesis using emb by auto
qed

lemma forward_init_attribute_error:
  assumes "BgeM3_init cfg \<theta> = Inr self"
    and "attn_output_dim cfg = embed_dim cfg"
    and "0 < num_heads cfg"
    and "num_heads cfg * (attn_dim cfg div num_heads cfg) = attn_dim cfg"
    and "all_below (rows ids) (\<lambda>i. all_below (cols ids) (\<lambda>j.
             0 \<le> at2 ids i j \<and> at2 ids i j < int (word_size cfg)))"
    and "0 < rows ids" "0 < cols ids" "cols ids \<le> position_size cfg"
  shows "fst (BgeM3_forward self ids None g) = Inl (AttributeError ''vocab_size'')"
proof -
  obtain emb out g' where e: "BgeM3Embedding_forward (embedding self) ids None = Inr emb"
    "attentions_loop (attentions self) emb g = (Inr out, g')"
    "dim1 out = cols ids" "dim2 out = embed_dim cfg"
    using encoder_init_ok[OF assms, of g] by blast
  have "BgeM3_heads self out ids = Inl (AttributeError ''vocab_size'')"
    using heads_attribute_error[of self out ids] BgeM3_init_Inr(1,5)[OF assms(1)] e(3,4) assms(7)
    by simp
  then show ?thesis by (simp add: forward_reaches_heads[OF e(1,2)])
qed

lemma example_config_facts:
  "attn_output_dim example_config = embed_dim example_config"
  "0 < num_heads example_config"
  "num_heads example_config * (attn_dim example_config div num_heads example_config)
     = attn_dim example_config"
  "0 \<le> dropout_prob example_config" "dropout_prob example_config \<le> 1"
  by (simp_all add: example_config_def)

lemma example_ids_facts:
  "all_below (rows example_ids) (\<lambda>i. all_below (cols example_ids) (\<lambda>j.
     0 \<le> at2 example_ids i j \<and> at2 example_ids i j < int (word_size example_config)))"
  "0 < rows example_ids" "0 < cols example_ids" "cols example_ids \<le> position_size example_config"
  by code_simp+

text \<open>
  Claim C2. The claim: every call of \<open>forward\<close> that reaches the sparse head raises an
  attribute fault, because the constructor assigns neither \<open>vocab_size\<close> nor \<open>tokenizer\<close>.
  The constructor indeed assigns neither, and on a constructed model no call of \<open>forward\<close>
  returns a result, whatever the token ids, the type ids and the generator. But the sparse
  head reads \<open>vocab_size\<close> only after its projection, which was built for the embedding
  width: a call that reaches the head raises the attribute fault on \<open>vocab_size\<close> when the
  stack's output has that width (no layer, or the attention output dimension equal to the
  embedding dimension), and the projection's shape fault otherwise.
\<close>

theorem forward_raises_attribute_fault:
  assumes "BgeM3_init cfg \<theta> = Inr self"
  shows "vocab_size self = None \<and> tokenizer self = None
    \<and> (\<forall>r. fst (BgeM3_forward self ids tt g) \<noteq> Inr r)
    \<and> (reaches_sparse_head self ids tt g \<longrightarrow>
         fst (BgeM3_forward self ids tt g) =
           (if num_of_attn_layers cfg = 0 \<or> attn_output_dim cfg = embed_dim cfg
            then Inl (AttributeError ''vocab_size'') else Inl RuntimeError))"
proof (intro conjI allI impI)
  show "vocab_size self = None" "tokenizer self = None"
    using BgeM3_init_Inr(1,2)[OF assms] by simp_all
next
  fix r show "fst (BgeM3_forward self ids tt g) \<noteq> Inr r"
    using forward_unassigned[OF BgeM3_init_Inr(1)[OF assms]] .
next
  assume "reaches_sparse_head self ids tt g"
  then obtain emb out g' where h:
    "BgeM3Embedding_forward (embedding self) ids tt = Inr emb"
    "attentions_loop (attentions self) emb g = (Inr out, g')" "0 < dim1 out"
    unfolding reaches_sparse_head_iff by blast
  note f = forward_reaches_heads[OF h(1,2)]
  show "fst (BgeM3_forward self ids tt g) =
           (if num_of_attn_layers cfg = 0 \<or> attn_output_dim cfg = embed_dim cfg
            then Inl (AttributeError ''vocab_size'') else Inl RuntimeError)"
  proof (cases "num_of_attn_layers cfg = 0 \<or> attn_output_dim cfg = embed_dim cfg")
    case True
    have w: "dim2 out = embed_dim cfg"
      using init_final_width[OF assms h(1,2) True] .
    have "BgeM3_heads self out ids = Inl (AttributeError ''vocab_size'')"
      using heads_attribute_error[of self out ids] BgeM3_init_Inr(1,5)[OF assms] h(3) w by simp
    then show ?thesis using True f by simp
  next
    case False
    then have "dim2 out = attn_output_dim cfg"
      using init_final_width_layers[OF assms h(2)] by simp
    then have "dim2 out \<noteq> in_features (sparse_linear self)"
      using False BgeM3_init_Inr(5)[OF assms] by simp
    then have "BgeM3_heads self out ids = Inl RuntimeError"
      using heads_width_mismatch[OF h(3)] by simp
    then show ?thesis using False f by simp
  qed
qed

lemma mismatch_config_facts:
  "embed_dim mismatch_config = 1" "attn_output_dim mismatch_config = 2"
  "num_of_attn_layers mismatch_config = 1" "word_size mismatch_config = 6"
  "position_size mismatch_config = 4"
  "0 < num_heads mismatch_config"
  "num_heads mismatch_config * (attn_dim mismatch_config div num_heads mismatch_config)
     = attn_dim mismatch_config"
  "0 \<le> dropout_prob mismatch_config" "dropout_prob mismatch_config \<le> 1"
  by (simp_all add: mismatch_config_def)

lemma small_ids_in_range:
  "all_below (rows small_ids) (\<lambda>b. all_below (cols small_ids) (\<lambda>t.
     0 \<le> at2 small_ids b t \<and> at2 small_ids b t < int 6))"
  by code_simp

lemma mismatch_reaches_sparse_head:
  assumes "BgeM3_init mismatch_config \<theta> = Inr self"
  shows "reaches_sparse_head self small_ids None g"
proof -
  note i = BgeM3_init_Inr[OF assms]
  have rg: "all_below (rows small_ids) (\<lambda>i. all_below (cols small_ids) (\<lambda>j.
             0 \<le> at2 small_ids i j \<and> at2 small_ids i j < int (word_size mismatch_config)))"
    using small_ids_in_range by (simp add: mismatch_config_facts)
  have len: "cols small_ids \<le> position_size mismatch_config"
    by (simp add: mismatch_config_facts small_ids_def)
  obtain emb where emb: "BgeM3Embedding_forward (embedding self) small_ids None = Inr emb"
    "dim0 emb = rows small_ids" "dim1 emb = cols small_ids"
    "dim2 emb = embed_dim mismatch_config"
    using embedding_forward_init[OF rg len, of \<theta>] i(3) by auto
  have ne: "dim0 emb * dim1 emb \<noteq> 0"
    using emb(2,3) by (simp add: small_ids_def)
  from i(4) obtain a where a: "BgeAttention_init mismatch_config (layer_params \<theta> 0) = Inr a"
    and layers: "attentions self = [a]"
    by (auto simp: mismatch_config_facts bindE_Inr_iff)
  obtain y g1 where y: "BgeAttention_forward a emb g = (Inr y, g1)" "dim1 y = dim1 emb"
    using BgeAttention_forward_init[OF a emb(4) mismatch_config_facts(6,7) ne, of g] by blast
  have "attentions_loop (attentions self) emb g = (Inr y, g1)"
    using y(1) layers by simp
  moreover have "0 < dim1 y"
    using y(2) emb(3) by (simp add: small_ids_def)
  ultimately show ?thesis
    using emb(1) unfolding reaches_sparse_head_iff by blast
qed

theorem forward_raises_attribute_fault_witness:
  "\<exists>self self'.
     BgeM3_init example_config unit_params = Inr self
     \<and> vocab_size self = None \<and> tokenizer self = None
     \<and> reaches_sparse_head self example_ids None half_generator
     \<and> attn_output_dim example_config = embed_dim example_config
     \<and> fst (BgeM3_forward self example_ids None half_generator)
         = Inl (AttributeError ''vocab_size'')
     \<and> BgeM3_init mismatch_config small_params = Inr self'
     \<and> vocab_size self' = None \<and> tokenizer self' = None
     \<and> reaches_sparse_head self' small_ids None half_generator
     \<and> num_of_attn_layers mismatch_config = 1
     \<and> attn_output_dim mismatch_config = 2 \<and> embed_dim mismatch_config = 1
     \<and> fst (BgeM3_forward self' small_ids None half_generator) = Inl RuntimeError"
proof -
  obtain self where init: "BgeM3_init example_config unit_params = Inr self"
    using BgeM3_init_ok[OF example_config_facts(4,5)] by blast
  obtain emb out g' where e:
    "BgeM3Embedding_forward (embedding self) example_ids None = Inr emb"
    "attentions_loop (attentions self) emb half_generator = (Inr out, g')"
    "dim1 out = cols example_ids"
    using encoder_init_ok[OF init example_config_facts(1,2,3) example_ids_facts] by blast
  have "0 < dim1 out"
    using e(3) example_ids_facts(3) by simp
  then have reach: "reaches_sparse_head self example_ids None half_generator"
    using e(1,2) unfolding reaches_sparse_head_iff by blast
  obtain self' where init': "BgeM3_init mismatch_config small_params = Inr self'"
    using BgeM3_init_ok[OF mismatch_config_facts(8,9)] by blast
  note reach' = mismatch_reaches_sparse_head[OF init', of half_generator]
  show ?thesis
    using forward_raises_attribute_fault[OF init, of example_ids None half_generator]
      forward_raises_attribute_fault[OF init', of small_ids None half_generator]
      init init' reach reach' example_config_facts(1) mismatch_config_facts(1,2,3)
    by auto
qed

text \<open>
  The claim as worded fails on a model with one encoder layer whose output (width 2) is
  wider than the embedding (width 1): the call reaches the sparse head, and the fault it
  raises is the shape fault of the sparse projection, not an attribute fault.
\<close>

theorem forward_raises_attribute_fault_counterexample:
  "case BgeM3_init mismatch_config small_params of
     Inl e \<Rightarrow> False
   | Inr self \<Rightarrow>
       reaches_sparse_head self small_ids None half_generator
       \<and> fst (BgeM3_forward self small_ids None half_generator) = Inl RuntimeError
       \<and> fst (BgeM3_forward self small_ids None half_generator)
           \<noteq> Inl (AttributeError ''vocab_size'')"
proof -
  obtain self where init: "BgeM3_init mismatch_config small_params = Inr self"
    using BgeM3_init_ok[OF mismatch_config_facts(8,9)] by blast
  note reach = mismatch_reaches_sparse_head[OF init, of half_generator]
  then obtain emb out g' where h:
    "BgeM3Embedding_forward (embedding self) small_ids None = Inr emb"
    "attentions_loop (attentions self) emb half_generator = (Inr out, g')" "0 < dim1 out"
    unfolding reaches_sparse_head_iff by blast
  have "dim2 out = attn_output_dim mismatch_config"
    using init_final_width_layers[OF init h(2)] by (simp add: mismatch_config_facts)
  then have "dim2 out \<noteq> in_features (sparse_linear self)"
    using BgeM3_init_Inr(5)[OF init] by (simp add: mismatch_config_facts)
  then have "BgeM3_heads self out small_ids = Inl RuntimeError"
    using heads_width_mismatch[OF h(3)] by simp
  then have "fst (BgeM3_forward self small_ids None half_generator) = Inl RuntimeError"
    using forward_reaches_heads[OF h(1,2)] by simp
  then show ?thesis
    using init reach by simp
qed

text \<open>
  Claim C1. The claim: for every batch of token ids in range, \<open>forward\<close> returns three
  tensors, of shapes \<open>(B, O)\<close>, \<open>(B, V)\<close> and \<open>(B, T - 1, O)\<close>. On a constructed model it
  returns nothing: for the example model and the example batch (one sequence, four ids in
  range, no type ids) \<open>forward\<close> raises the attribute fault on \<open>vocab_size\<close>, for every
  value of the parameters and every generator. Lemma \<open>forward_with_attributes\<close>, further
  down, gives the three shapes once the two attributes are assigned.
\<close>

theorem forward_on_example_raises:
  "\<exists>self. BgeM3_init example_config \<theta> = Inr self
     \<and> fst (BgeM3_forward self example_ids None g) = Inl (AttributeError ''vocab_size'')"
proof -
  obtain self where init: "BgeM3_init example_config \<theta> = Inr self"
    using BgeM3_init_ok[OF example_config_facts(4,5)] by blast
  show ?thesis
    using forward_init_attribute_error[OF init example_config_facts(1,2,3) example_ids_facts]
      init by blast
qed

section \<open>Floating-point values\<close>

lemma zero_fval [simp]: "(0::fval) = Finite 0"
  by (simp add: zero_fval_def)

lemma float32_max_ge: "2 ^ 100 \<le> float32_max"
  by (simp add: float32_max_def)

lemma float32_Finite:
  assumes "\<bar>x\<bar> \<le> 2 ^ 100"
  shows "float32 x = Finite x"
  using assms float32_max_ge unfolding float32_def by (auto simp: abs_le_iff)

lemma float32_simps [simp]: "float32 0 = Finite 0" "float32 1 = Finite 1"
  by (simp_all add: float32_Finite)

lemma float32_of_nat:
  assumes "n \<le> 2 ^ 100"
  shows "float32 (real n) = Finite (real n)"
proof -
  have "real n \<le> real (2 ^ 100)"
    using assms by (simp only: of_nat_le_iff)
  then show ?thesis
    by (intro float32_Finite) simp
qed

lemma fadd_zero_left: "fadd (Finite 0) (float32 x) = float32 x"
  by (simp add: float32_def)

lemma fadd_zero_right: "fadd (float32 x) (Finite 0) = float32 x"
  by (simp add: float32_def)

lemma fmul_zero_right:
  assumes "is_finite x"
  shows "fmul x (Finite 0) = Finite 0"
  using assms by (cases x) simp_all

lemma fmul_one_right: "fmul (fadd x y) (Finite 1) = fadd x y"
  by (cases x; cases y) (simp_all add: float32_def)

lemma frelu_finite:
  assumes "is_finite (frelu x)"
  shows "\<exists>r. frelu x = Finite r \<and> 0 \<le> r"
  using assms by (cases x) simp_all

lemma fmax_upto_nonneg:
  assumes "\<And>t. \<exists>r. f t = Finite r \<and> 0 \<le> r"
  shows "\<exists>r. fmax_upto f n = Finite r \<and> 0 \<le> r"
proof (induction n)
  case 0
  then show ?case using assms by simp
next
  case (Suc n)
  obtain r where r: "fmax_upto f n = Finite r" "0 \<le> r" using Suc by blast
  obtain q where q: "f (Suc n) = Finite q" "0 \<le> q" using assms by blast
  show ?case by (simp add: r q max_def)
qed

section \<open>The sparse head\<close>

lemma tensor3_cong:
  assumes "\<And>b t d. b < B \<Longrightarrow> t < T \<Longrightarrow> d < D \<Longrightarrow> f b t d = g b t d"
  shows "tensor3 B T D f = tensor3 B T D g"
  using assms by (auto simp: tensor3_def fun_eq_iff)

lemma tensor2_cong:
  assumes "\<And>i j. i < R \<Longrightarrow> j < C \<Longrightarrow> f i j = g i j"
  shows "tensor2 R C f = tensor2 R C g"
  using assms by (auto simp: tensor2_def fun_eq_iff)

lemma sum_below_0 [simp]: "sum_below 0 f = 0"
  by (simp add: sum_below_def)

lemma sum_below_Suc [simp]: "sum_below (Suc n) f = sum_below n f + f n"
  by (simp add: sum_below_def)

lemma all_below_0 [simp]: "all_below 0 P"
  by (simp add: all_below_def)

lemma all_below_Suc [simp]: "all_below (Suc n) P \<longleftrightarrow> all_below n P \<and> P n"
  by (auto simp: all_below_def)

lemma relu_nonneg [simp]: "0 \<le> relu v"
  by (simp add: relu_def)

lemma mapE_Inr_length:
  assumes "mapE f xs = Inr ys"
  shows "length ys = length xs \<and> (\<forall>i<length xs. f (xs ! i) = Inr (ys ! i))"
  using assms
proof (induction xs arbitrary: ys)
  case Nil
  then show ?case by simp
next
  case (Cons x xs)
  from Cons.prems obtain y rest where y: "f x = Inr y" and r: "mapE f xs = Inr rest"
    and ys: "ys = y # rest"
    by (auto simp: bindE_Inr_iff)
  show ?case using Cons.IH[OF r] y ys by (auto simp: nth_Cons split: nat.splits)
qed

lemma mapE_Inr_set:
  assumes "mapE f xs = Inr ys"
  shows "x \<in> set xs \<Longrightarrow> \<exists>y \<in> set ys. f x = Inr y"
    and "y \<in> set ys \<Longrightarrow> \<exists>x \<in> set xs. f x = Inr y"
proof -
  note l = mapE_Inr_length[OF assms]
  show "\<exists>y \<in> set ys. f x = Inr y" if "x \<in> set xs"
  proof -
    from that obtain i where "i < length xs" "xs ! i = x"
      by (meson in_set_conv_nth)
    then show ?thesis using l by (metis nth_mem)
  qed
  show "\<exists>x \<in> set xs. f x = Inr y" if "y \<in> set ys"
  proof -
    from that obtain i where "i < length ys" "ys ! i = y"
      by (meson in_set_conv_nth)
    then show ?thesis using l by (metis nth_mem)
  qed
qed

lemma wrap_index_Inr:
  assumes "wrap_index n i = Inr c"
  shows "c < n"
  using assms by (auto simp: wrap_index_def split: if_splits)

lemma wrap_index_ok:
  assumes "- int n \<le> i" "i < int n"
  shows "\<exists>c. wrap_index n i = Inr c"
  using assms by (simp add: wrap_index_def)

lemma sparse_token_weights_nonneg:
  assumes "sparse_token_weights self h = Inr w"
    and "is_finite (at3 w b t d)"
  shows "\<exists>r. at3 w b t d = Finite r \<and> 0 \<le> r"
proof -
  from assms(1) obtain y where w: "w = map3 frelu y"
    by (auto simp: sparse_token_weights_def bindE_Inr_iff)
  show ?thesis
  proof (cases "b < dim0 y \<and> t < dim1 y \<and> d < dim2 y")
    case True
    then have "at3 w b t d = frelu (at3 y b t d)"
      by (simp add: w map3_def)
    then show ?thesis using frelu_finite[of "at3 y b t d"] assms(2) by simp
  next
    case False
    then have "at3 w b t d = Finite 0"
      by (auto simp: w map3_def)
    then show ?thesis by simp
  qed
qed

lemma scatter_last_entry:
  assumes "scatter_last (tensor3 R C n (\<lambda>b t v. 0)) ids w = Inr s"
    and "rows ids = R" "cols ids = C"
  shows "dim0 s = R \<and> dim1 s = C \<and> dim2 s = n
    \<and> at3 s b t v = (if b < R \<and> t < C \<and> v < n \<and> int v = at2 ids b t then at3 w b t 0 else 0)"
  using assms by (auto simp: scatter_last_def split: if_splits)

lemma sparse_scatter_entry:
  assumes "sparse_scatter n ids w = Inr s"
  shows "dim0 s = rows ids" "dim1 s = cols ids" "dim2 s = n"
    "at3 s b t v =
       (if b < rows ids \<and> t < cols ids \<and> v < n \<and> int v = at2 ids b t then at3 w b t 0
        else Finite 0)"
  using scatter_last_entry[of "rows ids" "cols ids" n ids w s b t v] assms
  by (simp_all add: sparse_scatter_def)

lemma getattr_Inr_iff: "getattr slot name = Inr v \<longleftrightarrow> slot = Some v"
  by (cases slot) simp_all

lemma max_dim1_Inr:
  assumes "max_dim1 x = Inr y"
  shows "0 < dim1 x" "rows y = dim0 x" "cols y = dim2 x"
    "at2 y b v = (if b < dim0 x \<and> v < dim2 x
                  then fmax_upto (\<lambda>t. at3 x b t v) (dim1 x - 1) else Finite 0)"
  using assms by (auto simp: max_dim1_def split: if_splits)

lemma scale_columns_Inr:
  assumes "scale_columns x idx c = Inr y"
  shows "rows y = rows x" "cols y = cols x"
    and "rows x = 0 \<Longrightarrow> y = x"
    and "0 < rows x \<Longrightarrow>
      \<exists>cs. mapE (wrap_index (cols x)) idx = Inr cs
        \<and> (\<forall>b v. at2 y b v = (if b < rows x \<and> v < cols x
                      then (if v \<in> set cs then fmul (at2 x b v) (float32 c) else at2 x b v)
                      else Finite 0))"
  using assms by (auto simp: scale_columns_def bindE_Inr_iff split: if_splits)

lemma sparse_embedding_Inr:
  assumes "BgeM3_sparse_embedding self h ids = Inr s"
  shows "\<exists>w n sc tok pooled.
      sparse_token_weights self h = Inr w \<and> vocab_size self = Some n
      \<and> sparse_scatter n ids w = Inr sc \<and> tokenizer self = Some tok
      \<and> max_dim1 sc = Inr pooled
      \<and> scale_columns pooled
           [cls_token_id tok, eos_token_id tok, pad_token_id tok, unk_token_id tok] 0 = Inr s"
  using assms
  unfolding BgeM3_sparse_embedding_def Let_def bindE_Inr_iff getattr_Inr_iff
  by blast

text \<open>
  Claim C4. The claim: for every input, every entry of the sparse output is non-negative,
  and the entries at the four reserved token ids are exactly zero, whatever the computed
  weights. The head multiplies the reserved entries by zero; it does not assign them. So
  the claim holds whenever every computed token weight is finite: then the result has one
  row per sequence and one column per vocabulary entry, every entry is a finite
  non-negative value, the column that a reserved id (class, end, pad, unknown; a negative
  id counts from the end) addresses is zero in every row, and on a batch that is not empty
  every reserved id addresses a column.
\<close>

theorem sparse_embedding_nonnegative_and_masked:
  assumes "BgeM3_sparse_embedding self hidden_state input_ids = Inr s"
    and "sparse_token_weights self hidden_state = Inr w"
    and "\<forall>b t v. is_finite (at3 w b t v)"
  shows "\<exists>n tok. vocab_size self = Some n \<and> tokenizer self = Some tok
    \<and> rows s = rows input_ids \<and> cols s = n
    \<and> (\<forall>b v. \<exists>r. at2 s b v = Finite r \<and> 0 \<le> r)
    \<and> (\<forall>r \<in> set [cls_token_id tok, eos_token_id tok, pad_token_id tok, unk_token_id tok].
          (\<forall>c. wrap_index n r = Inr c \<longrightarrow> (\<forall>b. at2 s b c = Finite 0))
          \<and> (0 < rows s \<longrightarrow> (\<exists>c. wrap_index n r = Inr c \<and> c < n)))"
proof -
  obtain w' n sc tok pooled where
    w': "sparse_token_weights self hidden_state = Inr w'" and n: "vocab_size self = Some n"
    and sc: "sparse_scatter n input_ids w' = Inr sc" and tok: "tokenizer self = Some tok"
    and pooled: "max_dim1 sc = Inr pooled"
    and s: "scale_columns pooled
           [cls_token_id tok, eos_token_id tok, pad_token_id tok, unk_token_id tok] 0 = Inr s"
    using sparse_embedding_Inr[OF assms(1)] by blast
  have ww: "w' = w" using w' assms(2) by simp
  let ?unused = "[cls_token_id tok, eos_token_id tok, pad_token_id tok, unk_token_id tok]"
  note scd = sparse_scatter_entry[OF sc]
  note pd = max_dim1_Inr[OF pooled]
  note sd = scale_columns_Inr[OF s]
  have w_nonneg: "\<exists>r. at3 w b t v = Finite r \<and> 0 \<le> r" for b t v
    using sparse_token_weights_nonneg[OF assms(2)] assms(3) by blast
  have sc_nonneg: "\<exists>r. at3 sc b t v = Finite r \<and> 0 \<le> r" for b t v
    using w_nonneg[of b t 0] by (simp add: scd(4) ww)
  have pooled_nonneg: "\<exists>r. at2 pooled b v = Finite r \<and> 0 \<le> r" for b v
    using fmax_upto_nonneg[of "\<lambda>t. at3 sc b t v" "dim1 sc - 1"] sc_nonneg
    by (simp add: pd(4))
  have colsn: "cols pooled = n"
    using pd(3) scd(3) by simp
  have shape: "rows s = rows input_ids" "cols s = n"
    using sd(1,2) pd(2) scd(1) colsn by simp_all
  have rest: "(\<forall>b v. \<exists>r. at2 s b v = Finite r \<and> 0 \<le> r)
    \<and> (\<forall>r \<in> set ?unused.
          (\<forall>c. wrap_index n r = Inr c \<longrightarrow> (\<forall>b. at2 s b c = Finite 0))
          \<and> (0 < rows s \<longrightarrow> (\<exists>c. wrap_index n r = Inr c \<and> c < n)))"
  proof (cases "rows pooled = 0")
    case True
    then have eq: "s = pooled" using sd(3) by simp
    have zero: "at2 s b v = Finite 0" for b v
      using True pd(2) by (simp add: eq pd(4))
    show ?thesis
      using zero True sd(1) by simp
  next
    case False
    then obtain cs where cs: "mapE (wrap_index (cols pooled)) ?unused = Inr cs"
      and se: "\<And>b v. at2 s b v = (if b < rows pooled \<and> v < cols pooled
                 then (if v \<in> set cs then fmul (at2 pooled b v) (float32 0) else at2 pooled b v)
                 else Finite 0)"
      using sd(4) by auto
    have nonneg: "\<exists>r. at2 s b v = Finite r \<and> 0 \<le> r" for b v
      using pooled_nonneg[of b v] by (auto simp: se)
    have masked: "(\<forall>c. wrap_index n r = Inr c \<longrightarrow> (\<forall>b. at2 s b c = Finite 0))
          \<and> (0 < rows s \<longrightarrow> (\<exists>c. wrap_index n r = Inr c \<and> c < n))"
      if rin: "r \<in> set ?unused" for r
    proof -
      obtain c where c: "c \<in> set cs" "wrap_index n r = Inr c"
        using mapE_Inr_set(1)[OF cs rin] colsn by auto
      have "at2 s b c = Finite 0" for b
        using pooled_nonneg[of b c] c(1) by (auto simp: se)
      then show ?thesis
        using c(2) wrap_index_Inr[OF c(2)] by auto
    qed
    show ?thesis
      using nonneg masked by blast
  qed
  show ?thesis
    using n tok shape rest by blast
qed

lemma sparse_embedding_ok:
  assumes "vocab_size self = Some n" "tokenizer self = Some tok"
    and "dim2 h = in_features (sparse_linear self)"
    and "0 < out_features (sparse_linear self)"
    and "rows ids \<le> dim0 h" "cols ids \<le> dim1 h" "0 < cols ids"
    and "all_below (rows ids) (\<lambda>b. all_below (cols ids) (\<lambda>t.
           0 \<le> at2 ids b t \<and> at2 ids b t < int n))"
    and "\<forall>r \<in> set [cls_token_id tok, eos_token_id tok, pad_token_id tok, unk_token_id tok].
           - int n \<le> r \<and> r < int n"
  shows "\<exists>s. BgeM3_sparse_embedding self h ids = Inr s \<and> rows s = rows ids \<and> cols s = n"
proof -
  let ?unused = "[cls_token_id tok, eos_token_id tok, pad_token_id tok, unk_token_id tok]"
  obtain w where w: "sparse_token_weights self h = Inr w" "dim0 w = dim0 h" "dim1 w = dim1 h"
    "dim2 w = out_features (sparse_linear self)"
    using sparse_token_weights_ok[OF assms(3)] by blast
  have "\<exists>sc. sparse_scatter n ids w = Inr sc"
    using assms(4-6,8) w(2-4)
    by (simp add: sparse_scatter_def scatter_last_def Let_def)
  then obtain sc where sc: "sparse_scatter n ids w = Inr sc" ..
  note scd = sparse_scatter_entry[OF sc]
  have "\<exists>pooled. max_dim1 sc = Inr pooled"
    using scd(2) assms(7) by (simp add: max_dim1_def)
  then obtain pooled where pooled: "max_dim1 sc = Inr pooled" ..
  note pd = max_dim1_Inr[OF pooled]
  have "\<exists>c. wrap_index (cols pooled) r = Inr c" if "r \<in> set ?unused" for r
    using bspec[OF assms(9) that] wrap_index_ok[of "cols pooled" r] pd(3) scd(3) by simp
  then obtain cs where cs: "mapE (wrap_index (cols pooled)) ?unused = Inr cs"
    using mapE_ok[of ?unused "wrap_index (cols pooled)"] by blast
  have "\<exists>s. scale_columns pooled ?unused 0 = Inr s \<and> rows s = rows pooled
    \<and> cols s = cols pooled"
    using cs by (simp add: scale_columns_def)
  then obtain s where s: "scale_columns pooled ?unused 0 = Inr s" "rows s = rows pooled"
    "cols s = cols pooled" by blast
  have "BgeM3_sparse_embedding self h ids = Inr s"
    unfolding BgeM3_sparse_embedding_def Let_def
    by (simp only: w(1) assms(1,2) getattr_Some bindE_simps sc pooled s(1))
  then show ?thesis
    using s(2,3) pd(2,3) scd(1,3) by simp
qed

lemma sparse_embedding_empty_batch:
  assumes "vocab_size self = Some n" "tokenizer self = Some tok"
    and "dim2 h = in_features (sparse_linear self)"
    and "rows ids = 0" "0 < cols ids"
  shows "\<exists>s. BgeM3_sparse_embedding self h ids = Inr s \<and> rows s = 0 \<and> cols s = n"
proof -
  obtain w where w: "sparse_token_weights self h = Inr w"
    using sparse_token_weights_ok[OF assms(3)] by blast
  show ?thesis
    unfolding BgeM3_sparse_embedding_def Let_def
    using assms(4,5)
    by (simp add: w assms(1,2) sparse_scatter_def scatter_last_def max_dim1_def
        scale_columns_def)
qed

lemma sparse_scatter_ok:
  assumes "rows ids \<le> dim0 w" "cols ids \<le> dim1 w" "0 < dim2 w"
    and "all_below (rows ids) (\<lambda>b. all_below (cols ids) (\<lambda>t.
           0 \<le> at2 ids b t \<and> at2 ids b t < int n))"
  shows "\<exists>sc. sparse_scatter n ids w = Inr sc"
  using assms by (simp add: sparse_scatter_def scatter_last_def Let_def)

lemma with_sparse_attributes_sel [simp]:
  "vocab_size (with_sparse_attributes self n tok) = Some n"
  "tokenizer (with_sparse_attributes self n tok) = Some tok"
  "sparse_linear (with_sparse_attributes self n tok) = sparse_linear self"
  "colbert_linear (with_sparse_attributes self n tok) = colbert_linear self"
  "embedding (with_sparse_attributes self n tok) = embedding self"
  "attentions (with_sparse_attributes self n tok) = attentions self"
  by (simp_all add: with_sparse_attributes_def)

lemma sparse_token_weights_attributes [simp]:
  "sparse_token_weights (with_sparse_attributes self n tok) h = sparse_token_weights self h"
  by (simp add: sparse_token_weights_def)

lemma small_config_sel [simp]:
  "word_size small_config = 6" "embed_dim small_config = 1" "position_size small_config = 4"
  "num_of_attn_layers small_config = 0" "dropout_prob small_config = 0"
  by (simp_all add: small_config_def)

lemma small_init:
  "\<exists>self. BgeM3_init small_config \<theta> = Inr self \<and> attentions self = []"
proof -
  obtain self where init: "BgeM3_init small_config \<theta> = Inr self"
    using BgeM3_init_ok[of small_config \<theta>] by auto
  then show ?thesis using BgeM3_init_Inr(4)[OF init] by auto
qed

lemma small_tensors_sel [simp]:
  "dim0 small_hidden = 1" "dim1 small_hidden = 3" "dim2 small_hidden = 1"
  "rows small_ids = 1" "cols small_ids = 3"
  by (simp_all add: small_hidden_def small_ids_def)

lemma small_ids_entries: "at2 small_ids 0 1 = 5" "at2 small_ids 0 2 = 4"
  by (simp_all add: small_ids_def)

lemma small_token_weights:
  assumes "BgeM3_init small_config small_params = Inr self"
  shows "sparse_token_weights self (map3 float32 small_hidden)
           = Inr (tensor3 1 3 6 (\<lambda>b t v. Finite (real (Suc v))))"
proof -
  have lin: "sparse_linear self = nn_Linear_init 1 6 (small_params ''sparse_linear.weight'')
               (small_params ''sparse_linear.bias'')"
    using BgeM3_init_Inr(5)[OF assms] by simp
  have w: "float32 (small_params ''sparse_linear.weight'' [v, 0]) = Finite (real (Suc v))"
    if "v < 6" for v
    using that float32_of_nat[of "Suc v"] by (simp add: small_params_def)
  have b: "float32 (small_params ''sparse_linear.bias'' [v]) = Finite 0" for v
    by (simp add: small_params_def)
  define y where "y = tensor3 1 3 6 (\<lambda>b t v.
      fadd (fsum_below 1 (\<lambda>i. fmul (at3 (map3 float32 small_hidden) b t i)
                                  (float32 (small_params ''sparse_linear.weight'' [v, i]))))
           (float32 (small_params ''sparse_linear.bias'' [v])))"
  have ly: "nn_Linear_forward32 (sparse_linear self) (map3 float32 small_hidden) = Inr y"
    unfolding nn_Linear_forward32_def y_def by (simp add: lin)
  have d: "dim0 y = 1" "dim1 y = 3" "dim2 y = 6"
    by (simp_all add: y_def)
  have ye: "frelu (at3 y b t v) = Finite (real (Suc v))" if "b < 1" "t < 3" "v < 6" for b t v
  proof -
    have r: "float32 (real (Suc v)) = Finite (real (Suc v))"
      using float32_of_nat[of "Suc v"] that(3) by simp
    have h: "at3 (map3 float32 small_hidden) 0 t 0 = Finite 1"
      using that by (simp add: map3_def small_hidden_def)
    have "at3 y b t v = fadd (fadd (Finite 0) (fmul (Finite 1) (Finite (real (Suc v)))))
                             (Finite 0)"
      using that by (simp add: y_def h b w del: of_nat_Suc)
    also have "\<dots> = Finite (real (Suc v))"
      using r by (simp del: of_nat_Suc)
    finally show ?thesis by (simp del: of_nat_Suc)
  qed
  have "map3 frelu y = tensor3 (dim0 y) (dim1 y) (dim2 y) (\<lambda>b t v. frelu (at3 y b t v))"
    by (simp add: map3_def)
  also have "\<dots> = tensor3 1 3 6 (\<lambda>b t v. Finite (real (Suc v)))"
    unfolding d by (rule tensor3_cong) (rule ye)
  finally show ?thesis
    by (simp add: sparse_token_weights_def ly)
qed

text \<open>
  Claim C3. The claim places at \<open>scattered[b, t, ids[b, t]]\<close> the entry of the weight vector
  indexed by the position's own token id. The scatter's index tensor has a last axis of
  size 1, so the code writes the entry of index 0 instead. On the small model, position 1
  holds token id 5; its weight vector has 6 at index 5 and 1 at index 0; the scattered
  tensor holds 1 at \<open>[0, 1, 5]\<close>.
\<close>

theorem scatter_writes_first_weight:
  "\<exists>self w s. BgeM3_init small_config small_params = Inr self
     \<and> sparse_token_weights self (map3 float32 small_hidden) = Inr w
     \<and> sparse_scatter (word_size small_config) small_ids w = Inr s
     \<and> at2 small_ids 0 1 = 5 \<and> at3 w 0 1 5 = Finite 6 \<and> at3 w 0 1 0 = Finite 1
     \<and> at3 s 0 1 5 = Finite 1"
proof -
  obtain self where init: "BgeM3_init small_config small_params = Inr self"
    using small_init by blast
  define w where "w = tensor3 1 3 6 (\<lambda>b t v. Finite (real (Suc v)))"
  have w: "sparse_token_weights self (map3 float32 small_hidden) = Inr w"
    "dim0 w = 1" "dim1 w = 3" "dim2 w = 6" "at3 w 0 1 5 = Finite 6" "at3 w 0 1 0 = Finite 1"
    using small_token_weights[OF init] by (simp_all add: w_def)
  obtain s where s: "sparse_scatter 6 small_ids w = Inr s"
    using sparse_scatter_ok[of small_ids w 6] small_ids_in_range w(2-4) by auto
  have "at3 s 0 1 5 = Finite 1"
    using sparse_scatter_entry(4)[OF s, of 0 1 5] small_ids_entries(1) w(6) by simp
  then show ?thesis
    using init w(1,5,6) s small_ids_entries(1) by auto
qed

theorem sparse_embedding_nonnegative_and_masked_witness:
  "\<exists>self s w. BgeM3_init small_config small_params = Inr self
     \<and> BgeM3_sparse_embedding (with_sparse_attributes self 6 small_tokenizer)
           (map3 float32 small_hidden) small_ids = Inr s
     \<and> sparse_token_weights (with_sparse_attributes self 6 small_tokenizer)
           (map3 float32 small_hidden) = Inr w
     \<and> (\<forall>b t v. is_finite (at3 w b t v))
     \<and> rows s = 1 \<and> cols s = 6 \<and> (\<forall>b v. \<exists>r. at2 s b v = Finite r \<and> 0 \<le> r)
     \<and> (\<forall>b. at2 s b 0 = Finite 0) \<and> (\<forall>b. at2 s b 1 = Finite 0)
     \<and> (\<forall>b. at2 s b 2 = Finite 0) \<and> (\<forall>b. at2 s b 3 = Finite 0)"
proof -
  obtain self where init: "BgeM3_init small_config small_params = Inr self"
    using small_init by blast
  let ?M = "with_sparse_attributes self 6 small_tokenizer"
  define w where "w = tensor3 1 3 6 (\<lambda>b t v. Finite (real (Suc v)))"
  have w: "sparse_token_weights ?M (map3 float32 small_hidden) = Inr w"
    using small_token_weights[OF init] by (simp add: w_def)
  have fin: "\<forall>b t v. is_finite (at3 w b t v)"
    by (simp add: w_def)
  have lin: "sparse_linear self = nn_Linear_init 1 6 (small_params ''sparse_linear.weight'')
               (small_params ''sparse_linear.bias'')"
    using BgeM3_init_Inr(5)[OF init] by simp
  have "\<exists>s. BgeM3_sparse_embedding ?M (map3 float32 small_hidden) small_ids = Inr s
          \<and> rows s = rows small_ids \<and> cols s = 6"
    using small_ids_in_range
    by (intro sparse_embedding_ok[where tok = small_tokenizer])
       (auto simp: lin small_tokenizer_def)
  then obtain s where
    s: "BgeM3_sparse_embedding ?M (map3 float32 small_hidden) small_ids = Inr s" by blast
  obtain n tok where r: "vocab_size ?M = Some n" "tokenizer ?M = Some tok"
    "rows s = rows small_ids" "cols s = n" "\<forall>b v. \<exists>r. at2 s b v = Finite r \<and> 0 \<le> r"
    "\<forall>r \<in> set [cls_token_id tok, eos_token_id tok, pad_token_id tok, unk_token_id tok].
          (\<forall>c. wrap_index n r = Inr c \<longrightarrow> (\<forall>b. at2 s b c = Finite 0))
          \<and> (0 < rows s \<longrightarrow> (\<exists>c. wrap_index n r = Inr c \<and> c < n))"
    using sparse_embedding_nonnegative_and_masked[OF s w fin] by blast
  have n: "n = 6" and tok: "tok = small_tokenizer"
    using r(1,2) by simp_all
  have "(\<forall>b. at2 s b 0 = Finite 0) \<and> (\<forall>b. at2 s b 1 = Finite 0)
          \<and> (\<forall>b. at2 s b 2 = Finite 0) \<and> (\<forall>b. at2 s b 3 = Finite 0)"
    using r(6) unfolding n tok
    by (auto simp: small_tokenizer_def wrap_index_def)
  then show ?thesis
    using init s w fin r(3,4,5) n by auto
qed

lemma short_ids_facts:
  "rows short_ids = 1" "cols short_ids = 2" "at2 short_ids 0 0 = 0"
  "at2 short_ids 0 (Suc 0) = 5"
  "all_below (rows short_ids) (\<lambda>b. all_below (cols short_ids) (\<lambda>t.
     0 \<le> at2 short_ids b t \<and> at2 short_ids b t < int 6))"
  by (simp_all add: short_ids_def all_below_iff less_Suc_eq numeral_2_eq_2)

lemma large_product: "fmul (Finite (3 * 10 ^ 38)) (float32 2) = PosInf"
proof -
  have "float32 2 = Finite 2"
    by (rule float32_Finite) simp
  then show ?thesis
    by (simp add: float32_def float32_max_def)
qed

lemma large_token_weights:
  assumes "BgeM3_init small_config doubling_params = Inr self"
  shows "sparse_token_weights self large_hidden = Inr (tensor3 1 2 6 (\<lambda>b t v. PosInf))"
proof -
  have lin: "sparse_linear self = nn_Linear_init 1 6 (doubling_params ''sparse_linear.weight'')
               (doubling_params ''sparse_linear.bias'')"
    using BgeM3_init_Inr(5)[OF assms] by simp
  define y where "y = tensor3 1 2 6 (\<lambda>b t v.
      fadd (fsum_below 1 (\<lambda>i. fmul (at3 large_hidden b t i)
                                  (float32 (doubling_params ''sparse_linear.weight'' [v, i]))))
           (float32 (doubling_params ''sparse_linear.bias'' [v])))"
  have ly: "nn_Linear_forward32 (sparse_linear self) large_hidden = Inr y"
    unfolding nn_Linear_forward32_def y_def by (simp add: lin large_hidden_def)
  have d: "dim0 y = 1" "dim1 y = 2" "dim2 y = 6"
    by (simp_all add: y_def)
  have ye: "frelu (at3 y b t v) = PosInf" if "b < 1" "t < 2" "v < 6" for b t v
  proof -
    have "at3 y b t v = fadd (fadd (Finite 0) (fmul (Finite (3 * 10 ^ 38)) (float32 2)))
                             (Finite 0)"
      using that by (simp add: y_def large_hidden_def doubling_params_def)
    then show ?thesis
      by (simp only: large_product fadd.simps frelu.simps)
  qed
  have "map3 frelu y = tensor3 (dim0 y) (dim1 y) (dim2 y) (\<lambda>b t v. frelu (at3 y b t v))"
    by (simp add: map3_def)
  also have "\<dots> = tensor3 1 2 6 (\<lambda>b t v. PosInf)"
    unfolding d by (rule tensor3_cong) (rule ye)
  finally show ?thesis
    by (simp add: sparse_token_weights_def ly)
qed

text \<open>
  The claim as worded fails when a token weight overflows. On the small model whose sparse
  projection doubles its input, with the two attributes assigned, a hidden state whose
  entries are the finite value \<open>3 * 10 ^ 38\<close> and the token ids \<open>[0, 5]\<close>: every token
  weight is infinite, the pooled entry of column 0 is infinite, and the entry the head
  returns at column 0, the column of the class token, is infinity times zero: NaN, neither
  zero nor non-negative.
\<close>

theorem sparse_embedding_nonnegative_and_masked_counterexample:
  "case BgeM3_init small_config doubling_params of
     Inl e \<Rightarrow> False
   | Inr self \<Rightarrow>
       (case BgeM3_sparse_embedding (with_sparse_attributes self 6 small_tokenizer)
               large_hidden short_ids of
          Inl e \<Rightarrow> False
        | Inr s \<Rightarrow> cls_token_id small_tokenizer = 0 \<and> at2 s 0 0 = NaN)"
proof -
  obtain self where init: "BgeM3_init small_config doubling_params = Inr self"
    using small_init by blast
  let ?M = "with_sparse_attributes self 6 small_tokenizer"
  have lin: "sparse_linear self = nn_Linear_init 1 6 (doubling_params ''sparse_linear.weight'')
               (doubling_params ''sparse_linear.bias'')"
    using BgeM3_init_Inr(5)[OF init] by simp
  have "\<exists>s. BgeM3_sparse_embedding ?M large_hidden short_ids = Inr s
          \<and> rows s = rows short_ids \<and> cols s = 6"
    using short_ids_facts(5)
    by (intro sparse_embedding_ok[where tok = small_tokenizer])
       (auto simp: lin small_tokenizer_def large_hidden_def short_ids_facts)
  then obtain s where s: "BgeM3_sparse_embedding ?M large_hidden short_ids = Inr s" by blast
  obtain w n sc tok pooled where
    w: "sparse_token_weights ?M large_hidden = Inr w" and n: "vocab_size ?M = Some n"
    and sc: "sparse_scatter n short_ids w = Inr sc" and tok: "tokenizer ?M = Some tok"
    and pooled: "max_dim1 sc = Inr pooled"
    and sp: "scale_columns pooled
           [cls_token_id tok, eos_token_id tok, pad_token_id tok, unk_token_id tok] 0 = Inr s"
    using sparse_embedding_Inr[OF s] by blast
  have n6: "n = 6" and tk: "tok = small_tokenizer"
    using n tok by simp_all
  have we: "at3 w 0 0 0 = PosInf"
    using w large_token_weights[OF init] by auto
  note scd = sparse_scatter_entry[OF sc]
  note pd = max_dim1_Inr[OF pooled]
  have sc0: "at3 sc 0 0 0 = PosInf" "at3 sc 0 (Suc 0) 0 = Finite 0"
    using we by (simp_all add: scd(4) short_ids_facts n6)
  have "at2 pooled 0 0 = fmax_upto (\<lambda>t. at3 sc 0 t 0) 1"
    by (simp add: pd(4) scd(1,2,3) short_ids_facts n6)
  then have p0: "at2 pooled 0 0 = PosInf"
    by (simp add: sc0)
  have rp: "0 < rows pooled" "cols pooled = 6"
    by (simp_all add: pd(2,3) scd(1,3) short_ids_facts n6)
  obtain cs where cs: "mapE (wrap_index (cols pooled))
        [cls_token_id tok, eos_token_id tok, pad_token_id tok, unk_token_id tok] = Inr cs"
    and se: "\<And>b v. at2 s b v = (if b < rows pooled \<and> v < cols pooled
                 then (if v \<in> set cs then fmul (at2 pooled b v) (float32 0) else at2 pooled b v)
                 else Finite 0)"
    using scale_columns_Inr(4)[OF sp rp(1)] by auto
  have "\<exists>c \<in> set cs. wrap_index (cols pooled) (cls_token_id tok) = Inr c"
    using mapE_Inr_set(1)[OF cs, of "cls_token_id tok"] by simp
  then have "0 \<in> set cs"
    by (auto simp: tk small_tokenizer_def rp(2) wrap_index_def)
  then have "at2 s 0 0 = NaN"
    using rp by (simp add: se p0)
  moreover have "cls_token_id small_tokenizer = 0"
    by (simp add: small_tokenizer_def)
  ultimately show ?thesis
    by (simp add: init s)
qed

section \<open>The multi-vector head\<close>

lemma drop_first_dims [simp]:
  "dim0 (drop_first x) = dim0 x" "dim1 (drop_first x) = dim1 x - 1" "dim2 (drop_first x) = dim2 x"
  by (simp_all add: drop_first_def)

lemma mask_float_sel [simp]:
  "dim0 (mask_float m) = rows m" "dim1 (mask_float m) = cols m - 1" "dim2 (mask_float m) = 1"
  "at3 (mask_float m) b t d =
     (if b < rows m \<and> t < cols m - 1 \<and> d < 1 then float32 (real_of_int (at2 m b (t + 1)))
      else Finite 0)"
  by (simp_all add: mask_float_def)

lemma bidx_below: "i < d \<Longrightarrow> bidx d i = i"
  by (auto simp: bidx_def)

lemma broadcast3_last_one:
  assumes "dim0 y = dim0 x" "dim1 y = dim1 x" "dim2 y = 1"
  shows "broadcast3 f x y =
           Inr (tensor3 (dim0 x) (dim1 x) (dim2 x) (\<lambda>b t d. f (at3 x b t d) (at3 y b t 0)))"
proof -
  have "tensor3 (dim0 x) (dim1 x) (dim2 x)
          (\<lambda>b t d. f (at3 x (bidx (dim0 x) b) (bidx (dim1 x) t) (bidx (dim2 x) d))
                       (at3 y (bidx (dim0 y) b) (bidx (dim1 y) t) (bidx (dim2 y) d)))
      = tensor3 (dim0 x) (dim1 x) (dim2 x) (\<lambda>b t d. f (at3 x b t d) (at3 y b t 0))"
    by (rule tensor3_cong) (simp add: assms bidx_below, simp add: bidx_def)
  then show ?thesis
    by (simp add: broadcast3_def assms)
qed

lemma fsum_below_cong:
  assumes "\<And>i. i < n \<Longrightarrow> f i = g i"
  shows "fsum_below n f = fsum_below n g"
  using assms by (induction n) simp_all

lemma projected_positions_dims [simp]:
  "dim0 (projected_positions L h) = dim0 h" "dim1 (projected_positions L h) = dim1 h - 1"
  "dim2 (projected_positions L h) = out_features L"
  by (simp_all add: projected_positions_def)

lemma projected_positions_at:
  assumes "b < dim0 h" "t < dim1 h - 1" "j < out_features L"
  shows "at3 (projected_positions L h) b t j = affine32 L (at3 h b (t + 1)) j"
  using assms by (simp add: projected_positions_def)

lemma colbert_projection:
  assumes "dim2 h = in_features L"
  shows "nn_Linear_forward32 L (drop_first h) = Inr (projected_positions L h)"
proof -
  have "tensor3 (dim0 h) (dim1 h - 1) (out_features L)
          (\<lambda>b t j. fadd (fsum_below (in_features L)
                      (\<lambda>i. fmul (at3 (drop_first h) b t i) (float32 (lin_weight L j i))))
                    (float32 (lin_bias L j)))
      = tensor3 (dim0 h) (dim1 h - 1) (out_features L) (\<lambda>b t. affine32 L (at3 h b (t + 1)))"
  proof (rule tensor3_cong)
    fix b t j assume bt: "b < dim0 h" "t < dim1 h - 1" "j < out_features L"
    have "fsum_below (in_features L)
            (\<lambda>i. fmul (at3 (drop_first h) b t i) (float32 (lin_weight L j i)))
        = fsum_below (in_features L)
            (\<lambda>i. fmul (at3 h b (t + 1) i) (float32 (lin_weight L j i)))"
      using bt assms by (intro fsum_below_cong) (simp add: drop_first_def)
    then show "fadd (fsum_below (in_features L)
                      (\<lambda>i. fmul (at3 (drop_first h) b t i) (float32 (lin_weight L j i))))
                    (float32 (lin_bias L j))
               = affine32 L (at3 h b (t + 1)) j"
      by (simp add: affine32_def)
  qed
  then show ?thesis
    by (simp add: nn_Linear_forward32_def assms projected_positions_def)
qed

lemma colbert_embedding_entry:
  assumes "dim2 h = in_features (colbert_linear self)"
    and "rows msk = dim0 h" "cols msk = dim1 h"
  shows "BgeM3_colbert_embedding self h msk =
           Inr (tensor3 (dim0 h) (dim1 h - 1) (out_features (colbert_linear self))
                  (\<lambda>b t d. fmul (at3 (projected_positions (colbert_linear self) h) b t d)
                                 (float32 (real_of_int (at2 msk b (t + 1))))))"
proof -
  define p where "p = projected_positions (colbert_linear self) h"
  have pd: "dim0 p = dim0 h" "dim1 p = dim1 h - 1" "dim2 p = out_features (colbert_linear self)"
    by (simp_all add: p_def)
  have d: "dim0 (mask_float msk) = dim0 p" "dim1 (mask_float msk) = dim1 p"
    "dim2 (mask_float msk) = 1"
    using pd assms(2,3) by simp_all
  have "tensor3 (dim0 p) (dim1 p) (dim2 p)
          (\<lambda>b t d. fmul (at3 p b t d) (at3 (mask_float msk) b t 0))
      = tensor3 (dim0 p) (dim1 p) (dim2 p)
          (\<lambda>b t d. fmul (at3 p b t d) (float32 (real_of_int (at2 msk b (t + 1)))))"
    using d by (intro tensor3_cong) simp
  then have "fmul3 p (mask_float msk) =
          Inr (tensor3 (dim0 p) (dim1 p) (dim2 p)
                 (\<lambda>b t d. fmul (at3 p b t d) (float32 (real_of_int (at2 msk b (t + 1))))))"
    unfolding fmul3_def broadcast3_last_one[OF d] by simp
  then show ?thesis
    unfolding BgeM3_colbert_embedding_def colbert_projection[OF assms(1)] p_def[symmetric]
    by (simp add: pd)
qed

text \<open>
  Claim C6. The claim: for every final hidden state, an all-false mask yields an all-zero
  output, and an all-true mask yields the affine-projected values of the positions 1 to
  \<open>T - 1\<close>. The head multiplies the projected values by the mask. For a hidden state whose
  width the projection accepts and a mask of the hidden state's batch and sequence sizes:
  a mask that is one everywhere gives the tensor of shape \<open>(B, T - 1, O)\<close> whose entry \<open>t\<close>
  is the projection of position \<open>t + 1\<close> of the hidden state; a mask that is zero
  everywhere gives the all-zero tensor of that shape whenever every projected value is
  finite.
\<close>

theorem colbert_mask_all_false_all_true:
  assumes "dim2 h = in_features (colbert_linear self)"
    and "rows msk = dim0 h" "cols msk = dim1 h"
  shows "(all_below (rows msk) (\<lambda>b. all_below (cols msk) (\<lambda>t. at2 msk b t = 1))
         \<longrightarrow> BgeM3_colbert_embedding self h msk
               = Inr (projected_positions (colbert_linear self) h))
    \<and> (all_below (rows msk) (\<lambda>b. all_below (cols msk) (\<lambda>t. at2 msk b t = 0))
         \<and> (\<forall>b t d. is_finite (at3 (projected_positions (colbert_linear self) h) b t d))
         \<longrightarrow> BgeM3_colbert_embedding self h msk
               = Inr (tensor3 (dim0 h) (dim1 h - 1) (out_features (colbert_linear self))
                       (\<lambda>b t d. 0)))"
proof (intro conjI impI)
  let ?L = "colbert_linear self"
  let ?p = "projected_positions ?L h"
  have inside: "b < rows msk \<and> t + 1 < cols msk" if "b < dim0 h" "t < dim1 h - 1" for b t
    using that assms(2,3) by simp
  {
    assume o: "all_below (rows msk) (\<lambda>b. all_below (cols msk) (\<lambda>t. at2 msk b t = 1))"
    have "tensor3 (dim0 h) (dim1 h - 1) (out_features ?L)
            (\<lambda>b t d. fmul (at3 ?p b t d) (float32 (real_of_int (at2 msk b (t + 1)))))
        = tensor3 (dim0 h) (dim1 h - 1) (out_features ?L) (\<lambda>b t. affine32 ?L (at3 h b (t + 1)))"
    proof (rule tensor3_cong)
      fix b t d assume bt: "b < dim0 h" "t < dim1 h - 1" "d < out_features ?L"
      then have "at2 msk b (t + 1) = 1"
        using inside[of b t] o by (simp add: all_below_iff)
      then show "fmul (at3 ?p b t d) (float32 (real_of_int (at2 msk b (t + 1))))
                 = affine32 ?L (at3 h b (t + 1)) d"
        unfolding projected_positions_at[OF bt]
        by (simp add: affine32_def fmul_one_right)
    qed
    then show "BgeM3_colbert_embedding self h msk = Inr ?p"
      by (simp add: colbert_embedding_entry[OF assms] projected_positions_def)
  }
  {
    assume z: "all_below (rows msk) (\<lambda>b. all_below (cols msk) (\<lambda>t. at2 msk b t = 0))
         \<and> (\<forall>b t d. is_finite (at3 ?p b t d))"
    have "tensor3 (dim0 h) (dim1 h - 1) (out_features ?L)
            (\<lambda>b t d. fmul (at3 ?p b t d) (float32 (real_of_int (at2 msk b (t + 1)))))
        = tensor3 (dim0 h) (dim1 h - 1) (out_features ?L) (\<lambda>b t d. 0)"
    proof (rule tensor3_cong)
      fix b t d assume bt: "b < dim0 h" "t < dim1 h - 1" "d < out_features ?L"
      then have m: "at2 msk b (t + 1) = 0"
        using inside[of b t] z by (simp add: all_below_iff)
      have "is_finite (at3 ?p b t d)"
        using z by blast
      then have "fmul (at3 ?p b t d) (Finite 0) = Finite 0"
        by (rule fmul_zero_right)
      then show "fmul (at3 ?p b t d) (float32 (real_of_int (at2 msk b (t + 1)))) = 0"
        unfolding m by (simp only: of_int_0 float32_simps zero_fval)
    qed
    then show "BgeM3_colbert_embedding self h msk
               = Inr (tensor3 (dim0 h) (dim1 h - 1) (out_features ?L) (\<lambda>b t d. 0))"
      by (simp add: colbert_embedding_entry[OF assms])
  }
qed

lemma ramp_projection:
  assumes "BgeM3_init small_config small_params = Inr self"
  shows "dim2 ramp_hidden = in_features (colbert_linear self)"
    and "projected_positions (colbert_linear self) ramp_hidden
           = tensor3 1 2 1 (\<lambda>b t d. Finite (real (t + 1)))"
proof -
  have lin: "colbert_linear self = nn_Linear_init 1 1 (small_params ''colbert_linear.weight'')
               (small_params ''colbert_linear.bias'')"
    using BgeM3_init_Inr(6)[OF assms] by simp
  show "dim2 ramp_hidden = in_features (colbert_linear self)"
    by (simp add: lin ramp_hidden_def)
  have e: "affine32 (colbert_linear self) (at3 ramp_hidden b (t + 1)) d = Finite (real (t + 1))"
    if "b < 1" "t < 2" "d < 1" for b t d
  proof -
    have r: "float32 (real (t + 1)) = Finite (real (t + 1))"
      using float32_of_nat[of "t + 1"] that(2) by simp
    have "affine32 (colbert_linear self) (at3 ramp_hidden b (t + 1)) d
        = fadd (fadd (Finite 0) (fmul (Finite (real (t + 1))) (Finite 1))) (Finite 0)"
      using that by (simp add: affine32_def lin ramp_hidden_def small_params_def)
    also have "\<dots> = Finite (real (t + 1))"
      using r by simp
    finally show ?thesis .
  qed
  have dd: "dim0 ramp_hidden = 1" "dim1 ramp_hidden - 1 = 2"
    "out_features (colbert_linear self) = 1"
    by (simp_all add: lin ramp_hidden_def)
  show "projected_positions (colbert_linear self) ramp_hidden
           = tensor3 1 2 1 (\<lambda>b t d. Finite (real (t + 1)))"
    unfolding projected_positions_def dd by (rule tensor3_cong) (rule e)
qed

theorem colbert_mask_all_false_all_true_witness:
  "\<exists>self out. BgeM3_init small_config small_params = Inr self
     \<and> dim2 ramp_hidden = in_features (colbert_linear self)
     \<and> at3 ramp_hidden 0 0 0 = Finite 0 \<and> at3 ramp_hidden 0 1 0 = Finite 1
     \<and> at3 ramp_hidden 0 2 0 = Finite 2
     \<and> BgeM3_colbert_embedding self ramp_hidden (tensor2 1 3 (\<lambda>i j. 1)) = Inr out
     \<and> dim0 out = 1 \<and> dim1 out = 2 \<and> dim2 out = 1
     \<and> at3 out 0 0 0 = Finite 1 \<and> at3 out 0 1 0 = Finite 2
     \<and> (\<forall>b t d. is_finite (at3 (projected_positions (colbert_linear self) ramp_hidden) b t d))
     \<and> BgeM3_colbert_embedding self ramp_hidden (tensor2 1 3 (\<lambda>i j. 0))
          = Inr (tensor3 1 2 1 (\<lambda>b t d. 0))"
proof -
  obtain self where init: "BgeM3_init small_config small_params = Inr self"
    using small_init by blast
  note rp = ramp_projection[OF init]
  have o1: "out_features (colbert_linear self) = 1"
    using BgeM3_init_Inr(6)[OF init] by simp
  have sh: "rows (tensor2 1 3 (\<lambda>i j. c::int)) = dim0 ramp_hidden"
    "cols (tensor2 1 3 (\<lambda>i j. c::int)) = dim1 ramp_hidden" for c
    by (simp_all add: ramp_hidden_def)
  have zero: "all_below (rows (tensor2 1 3 (\<lambda>i j. 0::int)))
                (\<lambda>b. all_below (cols (tensor2 1 3 (\<lambda>i j. 0::int)))
                  (\<lambda>t. at2 (tensor2 1 3 (\<lambda>i j. 0::int)) b t = 0))"
    by (simp add: all_below_iff)
  have one: "all_below (rows (tensor2 1 3 (\<lambda>i j. 1::int)))
                (\<lambda>b. all_below (cols (tensor2 1 3 (\<lambda>i j. 1::int)))
                  (\<lambda>t. at2 (tensor2 1 3 (\<lambda>i j. 1::int)) b t = 1))"
    by (simp add: all_below_iff)
  have fin: "\<forall>b t d. is_finite (at3 (projected_positions (colbert_linear self) ramp_hidden) b t d)"
    by (simp add: rp(2))
  have t: "BgeM3_colbert_embedding self ramp_hidden (tensor2 1 3 (\<lambda>i j. 1))
          = Inr (tensor3 1 2 1 (\<lambda>b t d. Finite (real (t + 1))))"
    using colbert_mask_all_false_all_true[OF rp(1) sh, of 1] one
    by (simp add: rp(2))
  have f: "BgeM3_colbert_embedding self ramp_hidden (tensor2 1 3 (\<lambda>i j. 0))
          = Inr (tensor3 1 2 1 (\<lambda>b t d. 0))"
    using colbert_mask_all_false_all_true[OF rp(1) sh, of 0] zero fin
    by (simp add: o1 ramp_hidden_def)
  have r: "at3 ramp_hidden 0 0 0 = Finite 0" "at3 ramp_hidden 0 1 0 = Finite 1"
    "at3 ramp_hidden 0 2 0 = Finite 2"
    by (simp_all add: ramp_hidden_def)
  show ?thesis
    using init rp(1) r t f fin by simp
qed

text \<open>
  The claim as worded fails when a projected value overflows. On the small model whose
  multi-vector projection doubles its input, a hidden state whose entries are the finite
  value \<open>3 * 10 ^ 38\<close> and the mask that is zero everywhere: the projected value is
  infinite, and the entry the head returns is infinity times zero: NaN, not zero.
\<close>

theorem colbert_mask_all_false_all_true_counterexample:
  "case BgeM3_init small_config doubling_params of
     Inl e \<Rightarrow> False
   | Inr self \<Rightarrow>
       (case BgeM3_colbert_embedding self large_hidden (tensor2 1 2 (\<lambda>i j. 0)) of
          Inl e \<Rightarrow> False
        | Inr c \<Rightarrow> dim0 c = 1 \<and> dim1 c = 1 \<and> dim2 c = 1 \<and> at3 c 0 0 0 = NaN)"
proof -
  obtain self where init: "BgeM3_init small_config doubling_params = Inr self"
    using small_init by blast
  have lin: "colbert_linear self = nn_Linear_init 1 1 (doubling_params ''colbert_linear.weight'')
               (doubling_params ''colbert_linear.bias'')"
    using BgeM3_init_Inr(6)[OF init] by simp
  have w: "dim2 large_hidden = in_features (colbert_linear self)"
    by (simp add: lin large_hidden_def)
  have sh: "rows (tensor2 1 2 (\<lambda>i j. 0::int)) = dim0 large_hidden"
    "cols (tensor2 1 2 (\<lambda>i j. 0::int)) = dim1 large_hidden"
    by (simp_all add: large_hidden_def)
  have dd: "dim0 large_hidden = 1" "dim1 large_hidden - 1 = 1"
    "out_features (colbert_linear self) = 1"
    by (simp_all add: lin large_hidden_def)
  have "affine32 (colbert_linear self) (at3 large_hidden 0 (0 + 1)) 0
      = fadd (fadd (Finite 0) (fmul (Finite (3 * 10 ^ 38)) (float32 2))) (Finite 0)"
    by (simp add: affine32_def lin large_hidden_def doubling_params_def)
  then have "affine32 (colbert_linear self) (at3 large_hidden 0 (0 + 1)) 0 = PosInf"
    by (simp only: large_product fadd.simps)
  then have p: "at3 (projected_positions (colbert_linear self) large_hidden) 0 0 0 = PosInf"
    using projected_positions_at[of 0 large_hidden 0 0 "colbert_linear self"] dd by simp
  have e: "BgeM3_colbert_embedding self large_hidden (tensor2 1 2 (\<lambda>i j. 0))
      = Inr (tensor3 1 1 1
               (\<lambda>b t d. fmul (at3 (projected_positions (colbert_linear self) large_hidden) b t d)
                              (float32 (real_of_int (at2 (tensor2 1 2 (\<lambda>i j. 0)) b (t + 1))))))"
    using colbert_embedding_entry[OF w sh] unfolding dd .
  show ?thesis
    using e by (simp add: init p)
qed

section \<open>The heads on an instance with the sparse attributes assigned\<close>

lemma heads_ok:
  assumes "vocab_size self = Some n" "tokenizer self = Some tok"
    and "0 < dim1 out"
    and "dim2 out = in_features (sparse_linear self)"
    and "0 < out_features (sparse_linear self)"
    and "dim2 out = in_features (colbert_linear self)"
    and "rows ids = dim0 out" "cols ids = dim1 out"
    and "all_below (rows ids) (\<lambda>b. all_below (cols ids) (\<lambda>t.
           0 \<le> at2 ids b t \<and> at2 ids b t < int n))"
    and "\<forall>r \<in> set [cls_token_id tok, eos_token_id tok, pad_token_id tok, unk_token_id tok].
           - int n \<le> r \<and> r < int n"
  shows "\<exists>s. BgeM3_sparse_embedding self (map3 float32 out) ids = Inr s
    \<and> rows s = rows ids \<and> cols s = n
    \<and> BgeM3_heads self out ids =
        Inr (tensor2 (dim0 out) (dim2 out) (\<lambda>b d. at3 out b 0 d), s,
             tensor3 (dim0 out) (dim1 out - 1) (out_features (colbert_linear self))
               (\<lambda>b t d. fmul (at3 (projected_positions (colbert_linear self)
                                      (map3 float32 out)) b t d)
                              (float32 (real_of_int (at2 ids b (t + 1))))))"
proof -
  let ?h = "map3 float32 out"
  have le: "rows ids \<le> dim0 ?h" "cols ids \<le> dim1 ?h" "0 < cols ids"
    using assms(3,7,8) by simp_all
  have w: "dim2 ?h = in_features (sparse_linear self)"
    "dim2 ?h = in_features (colbert_linear self)"
    using assms(4,6) by simp_all
  have sh: "rows ids = dim0 ?h" "cols ids = dim1 ?h"
    using assms(7,8) by simp_all
  obtain s where s: "BgeM3_sparse_embedding self ?h ids = Inr s" "rows s = rows ids"
    "cols s = n"
    using sparse_embedding_ok[OF assms(1,2) w(1) assms(5) le assms(9,10)] by blast
  have "BgeM3_heads self out ids =
        Inr (tensor2 (dim0 out) (dim2 out) (\<lambda>b d. at3 out b 0 d), s,
             tensor3 (dim0 out) (dim1 out - 1) (out_features (colbert_linear self))
               (\<lambda>b t d. fmul (at3 (projected_positions (colbert_linear self) ?h) b t d)
                              (float32 (real_of_int (at2 ids b (t + 1))))))"
    by (simp add: BgeM3_heads_def select_position_ok[OF assms(3)] s(1)
        colbert_embedding_entry[OF w(2) sh])
  then show ?thesis using s by blast
qed

lemma forward_with_attributes:
  assumes "BgeM3_init cfg \<theta> = Inr self"
    and "attn_output_dim cfg = embed_dim cfg"
    and "0 < num_heads cfg"
    and "num_heads cfg * (attn_dim cfg div num_heads cfg) = attn_dim cfg"
    and "all_below (rows ids) (\<lambda>i. all_below (cols ids) (\<lambda>j.
             0 \<le> at2 ids i j \<and> at2 ids i j < int (word_size cfg)))"
    and "0 < rows ids" "0 < cols ids" "cols ids \<le> position_size cfg"
    and "\<forall>r \<in> set [cls_token_id tok, eos_token_id tok, pad_token_id tok, unk_token_id tok].
           - int (word_size cfg) \<le> r \<and> r < int (word_size cfg)"
  shows "\<exists>dense sparse colbert g'.
      BgeM3_forward (with_sparse_attributes self (word_size cfg) tok) ids None g
        = (Inr (dense, sparse, colbert), g')
      \<and> rows dense = rows ids \<and> cols dense = attn_output_dim cfg
      \<and> rows sparse = rows ids \<and> cols sparse = word_size cfg
      \<and> dim0 colbert = rows ids \<and> dim1 colbert = cols ids - 1
      \<and> dim2 colbert = attn_output_dim cfg"
proof -
  let ?M = "with_sparse_attributes self (word_size cfg) tok"
  obtain emb out g' where e: "BgeM3Embedding_forward (embedding self) ids None = Inr emb"
    "attentions_loop (attentions self) emb g = (Inr out, g')"
    "dim0 out = rows ids" "dim1 out = cols ids" "dim2 out = embed_dim cfg"
    using encoder_init_ok[OF assms(1-8), of g] by blast
  note i = BgeM3_init_Inr[OF assms(1)]
  have "0 \<le> at2 ids 0 0 \<and> at2 ids 0 0 < int (word_size cfg)"
    using assms(5,6,7) by (simp add: all_below_iff)
  then have V: "0 < word_size cfg"
    by linarith
  have p1: "vocab_size ?M = Some (word_size cfg)" and p2: "tokenizer ?M = Some tok"
    by simp_all
  have p3: "0 < dim1 out"
    using e(4) assms(7) by simp
  have p4: "dim2 out = in_features (sparse_linear ?M)"
    and p5: "0 < out_features (sparse_linear ?M)"
    and p6: "dim2 out = in_features (colbert_linear ?M)"
    using e(5) i(5,6) V by simp_all
  have p7: "rows ids = dim0 out" and p8: "cols ids = dim1 out"
    using e(3,4) by simp_all
  define c where "c = tensor3 (dim0 out) (dim1 out - 1) (out_features (colbert_linear ?M))
               (\<lambda>b t d. fmul (at3 (projected_positions (colbert_linear ?M)
                                      (map3 float32 out)) b t d)
                              (float32 (real_of_int (at2 ids b (t + 1)))))"
  obtain s where h: "rows s = rows ids" "cols s = word_size cfg"
    "BgeM3_heads ?M out ids = Inr (tensor2 (dim0 out) (dim2 out) (\<lambda>b d. at3 out b 0 d), s, c)"
    using heads_ok[OF p1 p2 p3 p4 p5 p6 p7 p8 assms(5) assms(9)] unfolding c_def by blast
  have "BgeM3_forward ?M ids None g = (BgeM3_heads ?M out ids, g')"
    using forward_reaches_heads[of ?M ids None emb g out g'] e(1,2) by simp
  then have "BgeM3_forward ?M ids None g =
      (Inr (tensor2 (dim0 out) (dim2 out) (\<lambda>b d. at3 out b 0 d), s, c), g')"
    by (simp only: h(3))
  moreover have "dim0 c = rows ids" "dim1 c = cols ids - 1" "dim2 c = attn_output_dim cfg"
    "dim2 out = attn_output_dim cfg" "dim0 out = rows ids"
    using e(3,4,5) i(6) assms(2) by (simp_all add: c_def)
  ultimately show ?thesis
    using h(1,2) by (intro exI conjI) (assumption, simp_all)
qed

text \<open>
  Claim C7. Whenever \<open>forward\<close> returns, on any instance, its dense output is the slice at
  position 0 of the hidden state the encoder stack returned for these inputs, entry for
  entry: nothing is applied between the stack and the output.
\<close>

theorem dense_is_final_hidden_state_at_position_0:
  assumes "BgeM3_forward self ids tt g = (Inr (dense, sparse, colbert), g')"
  shows "\<exists>emb out. BgeM3Embedding_forward (embedding self) ids tt = Inr emb
    \<and> attentions_loop (attentions self) emb g = (Inr out, g')
    \<and> 0 < dim1 out
    \<and> dense = tensor2 (dim0 out) (dim2 out) (\<lambda>b d. at3 out b 0 d)
    \<and> rows dense = dim0 out \<and> cols dense = dim2 out
    \<and> (\<forall>b d. b < dim0 out \<and> d < dim2 out \<longrightarrow> at2 dense b d = at3 out b 0 d)"
proof -
  from assms obtain emb out where e:
    "BgeM3Embedding_forward (embedding self) ids tt = Inr emb"
    "attentions_loop (attentions self) emb g = (Inr out, g')"
    "BgeM3_heads self out ids = Inr (dense, sparse, colbert)"
    unfolding BgeM3_forward_def
    by (cases "BgeM3Embedding_forward (embedding self) ids tt";
        cases "attentions_loop (attentions self) (projr (BgeM3Embedding_forward (embedding self) ids tt)) g";
        cases "fst (attentions_loop (attentions self) (projr (BgeM3Embedding_forward (embedding self) ids tt)) g)")
       auto
  from e(3) have d: "select_position out 0 = Inr dense"
    unfolding BgeM3_heads_def bindE_Inr_iff by auto
  then have pos: "0 < dim1 out"
    and dense: "dense = tensor2 (dim0 out) (dim2 out) (\<lambda>b d. at3 out b 0 d)"
    by (auto simp: select_position_def split: if_splits)
  show ?thesis
    using e(1,2) pos dense by simp
qed

lemma example_tokenizer_in_range:
  "\<forall>r \<in> set [cls_token_id small_tokenizer, eos_token_id small_tokenizer,
               pad_token_id small_tokenizer, unk_token_id small_tokenizer].
     - int (word_size example_config) \<le> r \<and> r < int (word_size example_config)"
  by (simp add: small_tokenizer_def example_config_def)

theorem dense_is_final_hidden_state_at_position_0_witness:
  "\<exists>self dense sparse colbert g' emb out.
     BgeM3_init example_config unit_params = Inr self
     \<and> BgeM3_forward (with_sparse_attributes self 4096 small_tokenizer) example_ids None
          half_generator = (Inr (dense, sparse, colbert), g')
     \<and> BgeM3Embedding_forward (embedding self) example_ids None = Inr emb
     \<and> attentions_loop (attentions self) emb half_generator = (Inr out, g')
     \<and> rows dense = dim0 out \<and> cols dense = dim2 out \<and> cols dense = 8
     \<and> dense = tensor2 (dim0 out) (dim2 out) (\<lambda>b d. at3 out b 0 d)"
proof -
  obtain self where init: "BgeM3_init example_config unit_params = Inr self"
    using BgeM3_init_ok[OF example_config_facts(4,5)] by blast
  let ?M = "with_sparse_attributes self (word_size example_config) small_tokenizer"
  obtain dense sparse colbert g' where f:
    "BgeM3_forward ?M example_ids None half_generator = (Inr (dense, sparse, colbert), g')"
    "cols dense = attn_output_dim example_config"
    using forward_with_attributes[OF init example_config_facts(1,2,3) example_ids_facts
        example_tokenizer_in_range, of half_generator]
    by blast
  have V: "word_size example_config = 4096" "attn_output_dim example_config = 8"
    by (simp_all add: example_config_def)
  show ?thesis
    using dense_is_final_hidden_state_at_position_0[OF f(1)] init f V
    by auto
qed

section \<open>The forward pass of the small model\<close>

lemma embedding_forward_form:
  assumes "BgeM3Embedding_forward self ids tt = Inr emb"
  shows "\<exists>x. emb = tensor3 (dim0 x) (dim1 x) (dim2 x) (layer_norm_entry (Emb_LayerNorm self) x)"
proof -
  have "\<exists>x. nn_LayerNorm_forward (Emb_LayerNorm self) x = Inr emb"
    using assms unfolding BgeM3Embedding_forward_def Let_def bindE_Inr_iff by blast
  then obtain x where x: "nn_LayerNorm_forward (Emb_LayerNorm self) x = Inr emb" ..
  then have "emb = tensor3 (dim0 x) (dim1 x) (dim2 x) (layer_norm_entry (Emb_LayerNorm self) x)"
    by (simp add: nn_LayerNorm_forward_def split: if_splits)
  then show ?thesis by blast
qed

lemma small_embedding:
  assumes "BgeM3_init small_config small_params = Inr self"
  shows "BgeM3Embedding_forward (embedding self) small_ids None = Inr small_hidden"
proof -
  note e = BgeM3_init_Inr(3)[OF assms]
  obtain emb where emb: "BgeM3Embedding_forward (embedding self) small_ids None = Inr emb"
    "dim0 emb = 1" "dim1 emb = 3" "dim2 emb = 1"
    using embedding_forward_init[of small_ids small_config small_params] small_ids_in_range e
    by auto
  obtain x where x: "emb = tensor3 (dim0 x) (dim1 x) (dim2 x)
                             (layer_norm_entry (Emb_LayerNorm (embedding self)) x)"
    using embedding_forward_form[OF emb(1)] by blast
  have d: "dim0 x = 1" "dim1 x = 3" "dim2 x = 1"
    using emb(2,3,4) x by (metis tensor3_sel(1), metis tensor3_sel(2), metis tensor3_sel(3))
  have one: "layer_norm_entry (Emb_LayerNorm (embedding self)) x = (\<lambda>b t k. 1)"
    by (simp add: e layer_norm_entry_def BgeM3Embedding_init_def nn_LayerNorm_init_def
        small_params_def fun_eq_iff)
  have "emb = small_hidden"
    unfolding x d one small_hidden_def ..
  then show ?thesis using emb(1) by simp
qed

lemma small_colbert_projection:
  assumes "BgeM3_init small_config small_params = Inr self"
  shows "dim2 (map3 float32 small_hidden) = in_features (colbert_linear self)"
    and "projected_positions (colbert_linear self) (map3 float32 small_hidden)
           = tensor3 1 2 1 (\<lambda>b t d. Finite 1)"
proof -
  have lin: "colbert_linear self = nn_Linear_init 1 1 (small_params ''colbert_linear.weight'')
               (small_params ''colbert_linear.bias'')"
    using BgeM3_init_Inr(6)[OF assms] by simp
  show "dim2 (map3 float32 small_hidden) = in_features (colbert_linear self)"
    by (simp add: lin)
  have e: "affine32 (colbert_linear self) (at3 (map3 float32 small_hidden) b (t + 1)) d
             = Finite 1"
    if "b < 1" "t < 2" "d < 1" for b t d
    using that by (simp add: affine32_def lin map3_def small_hidden_def small_params_def)
  have dd: "dim0 (map3 float32 small_hidden) = 1" "dim1 (map3 float32 small_hidden) - 1 = 2"
    "out_features (colbert_linear self) = 1"
    by (simp_all add: lin)
  show "projected_positions (colbert_linear self) (map3 float32 small_hidden)
           = tensor3 1 2 1 (\<lambda>b t d. Finite 1)"
    unfolding projected_positions_def dd by (rule tensor3_cong) (rule e)
qed

text \<open>
  Claim C5. \<open>forward\<close> hands the token ids themselves to the multi-vector head, which
  converts them to floating point and multiplies. On the small model with the sparse
  attributes assigned, the ids \<open>[0, 5, 4]\<close> give a final hidden state of ones and a
  projection of ones; the multi-vector output holds 5 and 4, the raw ids of positions 1
  and 2, where the claim says 1.
\<close>

theorem colbert_multiplies_by_token_id:
  "\<exists>self dense sparse colbert p.
     BgeM3_init small_config small_params = Inr self
     \<and> BgeM3_forward (with_sparse_attributes self 6 small_tokenizer) small_ids None g
          = (Inr (dense, sparse, colbert), g)
     \<and> BgeM3Embedding_forward (embedding self) small_ids None = Inr small_hidden
     \<and> attentions self = []
     \<and> nn_Linear_forward32 (colbert_linear self) (drop_first (map3 float32 small_hidden))
          = Inr p
     \<and> at3 p 0 0 0 = Finite 1 \<and> at3 p 0 1 0 = Finite 1
     \<and> at2 small_ids 0 1 = 5 \<and> at2 small_ids 0 2 = 4
     \<and> at3 colbert 0 0 0 = Finite 5 \<and> at3 colbert 0 1 0 = Finite 4"
proof -
  obtain self where init: "BgeM3_init small_config small_params = Inr self"
    and layers: "attentions self = []"
    using small_init by blast
  let ?M = "with_sparse_attributes self 6 small_tokenizer"
  note i = BgeM3_init_Inr[OF init]
  have emb: "BgeM3Embedding_forward (embedding ?M) small_ids None = Inr small_hidden"
    using small_embedding[OF init] by simp
  have loop: "attentions_loop (attentions ?M) small_hidden g = (Inr small_hidden, g)"
    using layers by simp
  have p1: "vocab_size ?M = Some 6" and p2: "tokenizer ?M = Some small_tokenizer"
    by simp_all
  have p3: "0 < dim1 small_hidden" by simp
  have p4: "dim2 small_hidden = in_features (sparse_linear ?M)"
    and p5: "0 < out_features (sparse_linear ?M)"
    and p6: "dim2 small_hidden = in_features (colbert_linear ?M)"
    using i(5,6) by simp_all
  have p7: "rows small_ids = dim0 small_hidden" and p8: "cols small_ids = dim1 small_hidden"
    by simp_all
  have p10: "\<forall>r \<in> set [cls_token_id small_tokenizer, eos_token_id small_tokenizer,
                   pad_token_id small_tokenizer, unk_token_id small_tokenizer].
               - int 6 \<le> r \<and> r < int 6"
    by (simp add: small_tokenizer_def)
  define p where "p = tensor3 1 2 1 (\<lambda>b t d. Finite (1::real))"
  note sp = small_colbert_projection[OF init]
  have pp: "projected_positions (colbert_linear ?M) (map3 float32 small_hidden) = p"
    using sp(2) by (simp add: p_def)
  have lp: "nn_Linear_forward32 (colbert_linear self) (drop_first (map3 float32 small_hidden))
              = Inr p"
    using colbert_projection[OF sp(1)] sp(2) by (simp add: p_def)
  have pe: "at3 p 0 0 0 = Finite 1" "at3 p 0 1 0 = Finite 1"
    by (simp_all add: p_def)
  define c where "c = tensor3 (dim0 small_hidden) (dim1 small_hidden - 1)
               (out_features (colbert_linear ?M))
               (\<lambda>b t d. fmul (at3 p b t d) (float32 (real_of_int (at2 small_ids b (t + 1)))))"
  obtain s where h:
    "BgeM3_heads ?M small_hidden small_ids =
        Inr (tensor2 (dim0 small_hidden) (dim2 small_hidden) (\<lambda>b d. at3 small_hidden b 0 d),
             s, c)"
    using heads_ok[OF p1 p2 p3 p4 p5 p6 p7 p8 small_ids_in_range p10]
    unfolding pp c_def by blast
  have f5: "float32 5 = Finite 5" and f4: "float32 4 = Finite 4"
    by (rule float32_Finite, simp)+
  have o1: "out_features (colbert_linear self) = 1"
    using i(6) by simp
  have c: "at3 c 0 0 0 = Finite 5" "at3 c 0 1 0 = Finite 4"
    using pe by (simp_all add: c_def o1 small_ids_def f5 f4)
  have "BgeM3_forward ?M small_ids None g = (BgeM3_heads ?M small_hidden small_ids, g)"
    using forward_reaches_heads[OF emb loop] .
  then have f: "BgeM3_forward ?M small_ids None g =
      (Inr (tensor2 (dim0 small_hidden) (dim2 small_hidden) (\<lambda>b d. at3 small_hidden b 0 d),
            s, c), g)"
    by (simp only: h)
  show ?thesis
    using init f small_embedding[OF init] layers lp pe small_ids_entries c
    by blast
qed

section \<open>Inference mode\<close>

lemma FFN_eval_sel [simp]:
  "fc1 (FFN_eval f) = fc1 f" "fc2 (FFN_eval f) = fc2 f"
  "FFN_LayerNorm (FFN_eval f) = FFN_LayerNorm f" "FFN_gelu (FFN_eval f) = FFN_gelu f"
  "training (output_dropout (FFN_eval f)) = False"
  "drop_p (output_dropout (FFN_eval f)) = drop_p (output_dropout f)"
  by (simp_all add: FFN_eval_def)

lemma nn_Dropout_forward_eval:
  assumes "\<not> training D"
  shows "nn_Dropout_forward D x g = (x, g)"
  using assms by (simp add: nn_Dropout_forward_def)

lemma FFN_forward_eval:
  assumes "\<not> training (output_dropout f)"
  shows "FFN_forward f x g = (fst (FFN_forward f x g0), g)"
  using assms by (simp add: FFN_forward_def nn_Dropout_forward_eval split: sum.splits)

lemma BgeAttention_forward_eval:
  assumes "\<not> training (output_dropout (ffn a))"
  shows "BgeAttention_forward a x g = (fst (BgeAttention_forward a x g0), g)"
  using FFN_forward_eval[OF assms]
  by (simp add: BgeAttention_forward_def split: sum.splits)

lemma attentions_loop_eval:
  assumes "list_all (\<lambda>a. \<not> training (output_dropout (ffn a))) layers"
  shows "attentions_loop layers x g = (fst (attentions_loop layers x g0), g)"
  using assms
proof (induction layers arbitrary: x)
  case Nil
  then show ?case by simp
next
  case (Cons a layers)
  define r where "r = fst (BgeAttention_forward a x g0)"
  have tr: "\<not> training (output_dropout (ffn a))"
    using Cons.prems by simp
  have a: "BgeAttention_forward a x g = (r, g)"
    and a0: "BgeAttention_forward a x g0 = (r, g0)"
    unfolding r_def by (rule BgeAttention_forward_eval[OF tr])+
  show ?case
  proof (cases r)
    case (Inl e)
    have "attentions_loop (a # layers) x g = (Inl e, g)"
      and "attentions_loop (a # layers) x g0 = (Inl e, g0)"
      by (simp_all add: a a0 Inl)
    then show ?thesis by simp
  next
    case (Inr y)
    have "attentions_loop (a # layers) x g = attentions_loop layers y g"
      and "attentions_loop (a # layers) x g0 = attentions_loop layers y g0"
      by (simp_all add: a a0 Inr)
    moreover have "attentions_loop layers y g = (fst (attentions_loop layers y g0), g)"
      using Cons.IH[of y] Cons.prems by simp
    ultimately show ?thesis by simp
  qed
qed

lemma forward_eval:
  assumes "inference_mode self"
  shows "BgeM3_forward self ids tt g = (fst (BgeM3_forward self ids tt g0), g)"
proof (cases "BgeM3Embedding_forward (embedding self) ids tt")
  case (Inl e)
  then show ?thesis by (simp add: BgeM3_forward_def)
next
  case (Inr emb)
  define r where "r = fst (attentions_loop (attentions self) emb g0)"
  have tr: "list_all (\<lambda>a. \<not> training (output_dropout (ffn a))) (attentions self)"
    using assms by (simp add: inference_mode_def)
  have l: "attentions_loop (attentions self) emb g = (r, g)"
    and l0: "attentions_loop (attentions self) emb g0 = (r, g0)"
    unfolding r_def by (rule attentions_loop_eval[OF tr])+
  show ?thesis
  proof (cases r)
    case (Inl e)
    have "BgeM3_forward self ids tt g = (Inl e, g)"
      and "BgeM3_forward self ids tt g0 = (Inl e, g0)"
      by (simp_all add: BgeM3_forward_def Inr l l0 Inl)
    then show ?thesis by simp
  next
    case out: (Inr out)
    have "BgeM3_forward self ids tt g = (BgeM3_heads self out ids, g)"
      and "BgeM3_forward self ids tt g0 = (BgeM3_heads self out ids, g0)"
      by (simp_all add: BgeM3_forward_def Inr l l0 out)
    then show ?thesis by simp
  qed
qed

lemma inference_mode_eval: "inference_mode (BgeM3_eval self)"
  by (simp add: inference_mode_def BgeM3_eval_def FFN_eval_def list_all_iff)

lemma BgeAttention_forward_init_eval:
  assumes "BgeAttention_init cfg \<theta> = Inr a"
    and "dim2 x = embed_dim cfg"
    and "0 < num_heads cfg"
    and "num_heads cfg * (attn_dim cfg div num_heads cfg) = attn_dim cfg"
    and "dim0 x * dim1 x \<noteq> 0"
  shows "\<exists>y g'. BgeAttention_forward (a\<lparr>ffn := FFN_eval (ffn a)\<rparr>) x g = (Inr y, g')
           \<and> dim0 y = dim0 x \<and> dim1 y = dim1 x \<and> dim2 y = attn_output_dim cfg"
proof -
  obtain h where h: "MultiHeadSelfAttention_forward (attention a) x = Inr h"
    "dim0 h = dim0 x" "dim1 h = dim1 x" "dim2 h = attn_output_dim cfg"
    using mhsa_forward_init[OF assms(2-5)] BgeAttention_init_Inr(1)[OF assms(1)] by metis
  note f = FFN_init_Inr[OF BgeAttention_init_Inr(2)[OF assms(1)]]
  obtain y g' where "FFN_forward (FFN_eval (ffn a)) h g = (Inr y, g')"
    "dim0 y = dim0 h" "dim1 y = dim1 h" "dim2 y = dim2 h"
    using FFN_forward_ok[of "FFN_eval (ffn a)" h g] f h by auto
  then show ?thesis using h by (simp add: BgeAttention_forward_def)
qed

lemma attentions_loop_init_eval:
  assumes "mapE (\<lambda>l. BgeAttention_init cfg (P l)) ls = Inr layers"
    and "attn_output_dim cfg = embed_dim cfg"
    and "0 < num_heads cfg"
    and "num_heads cfg * (attn_dim cfg div num_heads cfg) = attn_dim cfg"
    and "dim2 x = embed_dim cfg"
    and "dim0 x * dim1 x \<noteq> 0"
  shows "\<exists>out g'. attentions_loop (map (\<lambda>a. a\<lparr>ffn := FFN_eval (ffn a)\<rparr>) layers) x g
             = (Inr out, g')
           \<and> dim0 out = dim0 x \<and> dim1 out = dim1 x \<and> dim2 out = embed_dim cfg"
  using assms(1,5,6)
proof (induction ls arbitrary: layers x g)
  case Nil
  then show ?case by simp
next
  case (Cons l ls)
  from Cons.prems(1) obtain a rest where a: "BgeAttention_init cfg (P l) = Inr a"
    and rest: "mapE (\<lambda>l. BgeAttention_init cfg (P l)) ls = Inr rest"
    and layers: "layers = a # rest"
    by (auto simp: bindE_Inr_iff)
  obtain y g1 where y: "BgeAttention_forward (a\<lparr>ffn := FFN_eval (ffn a)\<rparr>) x g = (Inr y, g1)"
    "dim0 y = dim0 x" "dim1 y = dim1 x" "dim2 y = attn_output_dim cfg"
    using BgeAttention_forward_init_eval[OF a Cons.prems(2) assms(3,4) Cons.prems(3)] by blast
  have y2: "dim2 y = embed_dim cfg" and y0: "dim0 y * dim1 y \<noteq> 0"
    using y Cons.prems(3) assms(2) by simp_all
  obtain out g' where out:
    "attentions_loop (map (\<lambda>a. a\<lparr>ffn := FFN_eval (ffn a)\<rparr>) rest) y g1 = (Inr out, g')"
    "dim0 out = dim0 y" "dim1 out = dim1 y" "dim2 out = embed_dim cfg"
    using Cons.IH[OF rest y2 y0, of g1] by blast
  have "attentions_loop (map (\<lambda>a. a\<lparr>ffn := FFN_eval (ffn a)\<rparr>) layers) x g = (Inr out, g')"
    using y(1) out(1) layers by simp
  then show ?case using out y by simp
qed

lemma BgeM3_eval_sel [simp]:
  "embedding (BgeM3_eval self) = embedding self"
  "attentions (BgeM3_eval self) = map (\<lambda>a. a\<lparr>ffn := FFN_eval (ffn a)\<rparr>) (attentions self)"
  "sparse_linear (BgeM3_eval self) = sparse_linear self"
  "colbert_linear (BgeM3_eval self) = colbert_linear self"
  "vocab_size (BgeM3_eval self) = vocab_size self"
  "tokenizer (BgeM3_eval self) = tokenizer self"
  by (simp_all add: BgeM3_eval_def)

lemma forward_with_attributes_eval:
  assumes "BgeM3_init cfg \<theta> = Inr self"
    and "attn_output_dim cfg = embed_dim cfg"
    and "0 < num_heads cfg"
    and "num_heads cfg * (attn_dim cfg div num_heads cfg) = attn_dim cfg"
    and "all_below (rows ids) (\<lambda>i. all_below (cols ids) (\<lambda>j.
             0 \<le> at2 ids i j \<and> at2 ids i j < int (word_size cfg)))"
    and "0 < rows ids" "0 < cols ids" "cols ids \<le> position_size cfg"
    and "\<forall>r \<in> set [cls_token_id tok, eos_token_id tok, pad_token_id tok, unk_token_id tok].
           - int (word_size cfg) \<le> r \<and> r < int (word_size cfg)"
  shows "\<exists>dense sparse colbert g'.
      BgeM3_forward (BgeM3_eval (with_sparse_attributes self (word_size cfg) tok)) ids None g
        = (Inr (dense, sparse, colbert), g')"
proof -
  let ?M = "BgeM3_eval (with_sparse_attributes self (word_size cfg) tok)"
  note i = BgeM3_init_Inr[OF assms(1)]
  obtain emb where emb: "BgeM3Embedding_forward (embedding self) ids None = Inr emb"
    "dim0 emb = rows ids" "dim1 emb = cols ids" "dim2 emb = embed_dim cfg"
    using embedding_forward_init[OF assms(5,8), of \<theta>] i(3) by auto
  have ne: "dim0 emb * dim1 emb \<noteq> 0"
    using emb assms(6,7) by simp
  obtain out g' where out: "attentions_loop (attentions ?M) emb g = (Inr out, g')"
    "dim0 out = dim0 emb" "dim1 out = dim1 emb" "dim2 out = embed_dim cfg"
    using attentions_loop_init_eval[OF i(4) assms(2,3,4) emb(4) ne, of g] by auto
  have "0 \<le> at2 ids 0 0 \<and> at2 ids 0 0 < int (word_size cfg)"
    using assms(5,6,7) by (simp add: all_below_iff)
  then have V: "0 < word_size cfg"
    by linarith
  have p1: "vocab_size ?M = Some (word_size cfg)" and p2: "tokenizer ?M = Some tok"
    by simp_all
  have p3: "0 < dim1 out"
    using out(3) emb(3) assms(7) by simp
  have p4: "dim2 out = in_features (sparse_linear ?M)"
    and p5: "0 < out_features (sparse_linear ?M)"
    and p6: "dim2 out = in_features (colbert_linear ?M)"
    using out(4) i(5,6) V by simp_all
  have p7: "rows ids = dim0 out" and p8: "cols ids = dim1 out"
    using out(2,3) emb(2,3) by simp_all
  have "\<exists>r. BgeM3_heads ?M out ids = Inr r"
    using heads_ok[OF p1 p2 p3 p4 p5 p6 p7 p8 assms(5) assms(9)]
    by (elim exE conjE) (rule exI)
  then obtain r where h: "BgeM3_heads ?M out ids = Inr r" ..
  obtain dense sparse colbert where r: "r = (dense, sparse, colbert)"
    by (cases r) auto
  have e': "BgeM3Embedding_forward (embedding ?M) ids None = Inr emb"
    using emb(1) by simp
  have "BgeM3_forward ?M ids None g = (BgeM3_heads ?M out ids, g')"
    using forward_reaches_heads[OF e' out(1)] .
  then have "BgeM3_forward ?M ids None g = (Inr (dense, sparse, colbert), g')"
    by (simp only: h r)
  then show ?thesis by blast
qed

text \<open>
  Claim C9. With every dropout layer out of training mode, \<open>forward\<close> leaves the random
  generator, the only state that outlives a call, as it found it, and its result does not
  depend on the generator. So a second call on the same inputs, made after the first,
  gives the same result; the model itself is a value that \<open>forward\<close> only reads.
\<close>

theorem forward_deterministic_in_inference_mode:
  assumes "inference_mode self"
  shows "snd (BgeM3_forward self ids tt g) = g
    \<and> fst (BgeM3_forward self ids tt g) = fst (BgeM3_forward self ids tt g')
    \<and> BgeM3_forward self ids tt (snd (BgeM3_forward self ids tt g))
        = BgeM3_forward self ids tt g"
  using forward_eval[OF assms, of ids tt g g'] forward_eval[OF assms, of ids tt g g]
  by simp

theorem forward_deterministic_in_inference_mode_witness:
  "\<exists>self dense sparse colbert.
     BgeM3_init example_config unit_params = Inr self
     \<and> inference_mode (BgeM3_eval (with_sparse_attributes self 4096 small_tokenizer))
     \<and> BgeM3_forward (BgeM3_eval (with_sparse_attributes self 4096 small_tokenizer))
          example_ids None half_generator = (Inr (dense, sparse, colbert), half_generator)
     \<and> BgeM3_forward (BgeM3_eval (with_sparse_attributes self 4096 small_tokenizer))
          example_ids None (\<lambda>i. 0) = (Inr (dense, sparse, colbert), (\<lambda>i. 0))"
proof -
  obtain self where init: "BgeM3_init example_config unit_params = Inr self"
    using BgeM3_init_ok[OF example_config_facts(4,5)] by blast
  define M where "M = BgeM3_eval (with_sparse_attributes self 4096 small_tokenizer)"
  have V: "word_size example_config = 4096"
    by (simp add: example_config_def)
  have inf: "inference_mode M"
    unfolding M_def by (rule inference_mode_eval)
  obtain dense sparse colbert g' where f:
    "BgeM3_forward M example_ids None half_generator = (Inr (dense, sparse, colbert), g')"
    using forward_with_attributes_eval[OF init example_config_facts(1,2,3) example_ids_facts
        example_tokenizer_in_range, of half_generator]
    unfolding V M_def by blast
  note d = forward_deterministic_in_inference_mode[OF inf, of example_ids None]
  have g': "g' = half_generator"
    using d[of half_generator] f by simp
  have "fst (BgeM3_forward M example_ids None (\<lambda>i. 0)) = Inr (dense, sparse, colbert)"
    and "snd (BgeM3_forward M example_ids None (\<lambda>i. 0)) = (\<lambda>i. 0)"
    using d[of "\<lambda>i. 0" half_generator] f by simp_all
  then have z: "BgeM3_forward M example_ids None (\<lambda>i. 0)
             = (Inr (dense, sparse, colbert), (\<lambda>i. 0))"
    by (metis prod.collapse)
  show ?thesis
    using init inf f z unfolding g' M_def by blast
qed

section \<open>Absent type ids\<close>

lemma nn_Embedding_forward_cong:
  assumes "rows a = rows b" "cols a = cols b"
    and "\<And>i j. i < rows a \<Longrightarrow> j < cols a \<Longrightarrow> at2 a i j = at2 b i j"
  shows "nn_Embedding_forward E a = nn_Embedding_forward E b"
proof -
  have "tensor3 (rows a) (cols a) (embedding_dim E) (\<lambda>i j d. emb_weight E (nat (at2 a i j)) d)
      = tensor3 (rows b) (cols b) (embedding_dim E) (\<lambda>i j d. emb_weight E (nat (at2 b i j)) d)"
    unfolding assms(1,2)[symmetric] using assms(3) by (intro tensor3_cong) simp
  moreover have "all_below (rows a) (\<lambda>i. all_below (cols a) (\<lambda>j.
           0 \<le> at2 a i j \<and> at2 a i j < int (num_embeddings E)))
      \<longleftrightarrow> all_below (rows b) (\<lambda>i. all_below (cols b) (\<lambda>j.
           0 \<le> at2 b i j \<and> at2 b i j < int (num_embeddings E)))"
    unfolding assms(1,2)[symmetric] using assms(3) by (simp add: all_below_iff)
  ultimately show ?thesis
    by (simp add: nn_Embedding_forward_def)
qed

text \<open>
  Claim C10. For type ids of the token ids' shape that are zero at every position, the
  embedding composer, and with it the whole forward pass, returns exactly what it returns
  when the type ids are absent.
\<close>

theorem absent_type_ids_are_zero_type_ids:
  assumes "rows tz = rows ids" "cols tz = cols ids"
    and "all_below (rows tz) (\<lambda>i. all_below (cols tz) (\<lambda>j. at2 tz i j = 0))"
  shows "BgeM3Embedding_forward e ids (Some tz) = BgeM3Embedding_forward e ids None
    \<and> BgeM3_forward self ids (Some tz) g = BgeM3_forward self ids None g"
proof -
  have tt: "nn_Embedding_forward E tz = nn_Embedding_forward E (zeros_like ids)" for E
    using assms by (intro nn_Embedding_forward_cong) (simp_all add: zeros_like_def all_below_iff)
  have emb: "BgeM3Embedding_forward e' ids (Some tz) = BgeM3Embedding_forward e' ids None" for e'
    unfolding BgeM3Embedding_forward_def Let_def option.case tt ..
  show ?thesis
    unfolding BgeM3_forward_def emb by simp
qed

theorem absent_type_ids_are_zero_type_ids_witness:
  "\<exists>self emb. BgeM3_init example_config unit_params = Inr self
     \<and> BgeM3Embedding_forward (embedding self) example_ids None = Inr emb
     \<and> BgeM3Embedding_forward (embedding self) example_ids
          (Some \<lparr>rows = 1, cols = 4, at2 = (\<lambda>i j. if j < 4 then 0 else 7)\<rparr>) = Inr emb
     \<and> BgeM3_forward self example_ids
          (Some \<lparr>rows = 1, cols = 4, at2 = (\<lambda>i j. if j < 4 then 0 else 7)\<rparr>) half_generator
         = BgeM3_forward self example_ids None half_generator"
proof -
  obtain self where init: "BgeM3_init example_config unit_params = Inr self"
    using BgeM3_init_ok[OF example_config_facts(4,5)] by blast
  obtain emb where emb: "BgeM3Embedding_forward (embedding self) example_ids None = Inr emb"
    using embedding_forward_init[OF example_ids_facts(1,4), of unit_params]
      BgeM3_init_Inr(3)[OF init] by auto
  let ?tz = "\<lparr>rows = 1, cols = 4, at2 = (\<lambda>i j. if j < 4 then 0 else (7::int))\<rparr>"
  have z: "all_below (rows ?tz) (\<lambda>i. all_below (cols ?tz) (\<lambda>j. at2 ?tz i j = 0))"
    by (simp add: all_below_iff)
  have s: "rows ?tz = rows example_ids" "cols ?tz = cols example_ids"
    by (simp_all add: example_ids_def)
  show ?thesis
    using absent_type_ids_are_zero_type_ids[OF s z, of "embedding self" self half_generator]
      init emb
    by auto
qed

section \<open>The position-wise transform block against its specification\<close>

lemma sum_below_cong:
  assumes "\<And>i. i < n \<Longrightarrow> f i = g i"
  shows "sum_below n f = sum_below n g"
  using assms by (induction n) simp_all

lemma nn_Linear_forward_affine:
  assumes "dim2 x = in_features L"
  shows "nn_Linear_forward L x =
           Inr (tensor3 (dim0 x) (dim1 x) (out_features L) (\<lambda>b t. affine_spec L (at3 x b t)))"
proof -
  have "(\<lambda>b t j. sum_below (in_features L) (\<lambda>i. at3 x b t i * lin_weight L j i) + lin_bias L j)
      = (\<lambda>b t. affine_spec L (at3 x b t))"
    by (simp add: fun_eq_iff affine_spec_def)
  then show ?thesis
    using assms by (simp add: nn_Linear_forward_def)
qed

lemma nn_LayerNorm_forward_normalize:
  assumes "dim2 x = normalized_shape N"
  shows "nn_LayerNorm_forward N x =
           Inr (tensor3 (dim0 x) (dim1 x) (dim2 x) (\<lambda>b t. normalize_spec N (dim2 x) (at3 x b t)))"
proof -
  have "layer_norm_entry N x = (\<lambda>b t. normalize_spec N (dim2 x) (at3 x b t))"
    by (simp add: fun_eq_iff layer_norm_entry_def normalize_spec_def mean_last_def var_last_def
        Let_def)
  then show ?thesis
    using assms by (simp add: nn_LayerNorm_forward_def)
qed

lemma FFN_pre_dropout:
  assumes "in_features (fc1 f) = dim2 x"
    and "out_features (fc1 f) = in_features (fc2 f)"
    and "out_features (fc2 f) = dim2 x"
    and "FFN_gelu f = gelu"
  shows "bindE (nn_Linear_forward (fc1 f) x) (\<lambda>out.
           let out = map3 relu out; out = map3 (FFN_gelu f) out
           in bindE (nn_Linear_forward (fc2 f) out) (\<lambda>out. add3 out x))
       = Inr (tensor3 (dim0 x) (dim1 x) (dim2 x) (\<lambda>b t. pre_dropout_spec f (at3 x b t)))"
proof -
  let ?B = "dim0 x" and ?T = "dim1 x" and ?H = "out_features (fc1 f)"
  define h1 where "h1 = tensor3 ?B ?T ?H (\<lambda>b t. affine_spec (fc1 f) (at3 x b t))"
  define h2 where "h2 = map3 gelu (map3 relu h1)"
  define h3 where "h3 = tensor3 ?B ?T (dim2 x) (\<lambda>b t. affine_spec (fc2 f) (at3 h2 b t))"
  have s1: "nn_Linear_forward (fc1 f) x = Inr h1"
    unfolding h1_def using assms(1) by (intro nn_Linear_forward_affine) simp
  have d2: "dim0 h2 = ?B" "dim1 h2 = ?T" "dim2 h2 = in_features (fc2 f)"
    by (simp_all add: h2_def h1_def assms(2))
  have s2: "nn_Linear_forward (fc2 f) h2 = Inr h3"
    unfolding h3_def using nn_Linear_forward_affine[of h2 "fc2 f"] d2 assms(3) by simp
  have e2: "at3 h2 b t i = gelu (relu (affine_spec (fc1 f) (at3 x b t) i))"
    if "b < ?B" "t < ?T" "i < in_features (fc2 f)" for b t i
    using that by (simp add: h2_def h1_def map3_def assms(2))
  have e3: "affine_spec (fc2 f) (at3 h2 b t) j
          = affine_spec (fc2 f) (\<lambda>i. gelu (relu (affine_spec (fc1 f) (at3 x b t) i))) j"
    if "b < ?B" "t < ?T" for b t j
  proof -
    have "sum_below (in_features (fc2 f)) (\<lambda>i. at3 h2 b t i * lin_weight (fc2 f) j i)
        = sum_below (in_features (fc2 f))
            (\<lambda>i. gelu (relu (affine_spec (fc1 f) (at3 x b t) i)) * lin_weight (fc2 f) j i)"
      by (rule sum_below_cong) (simp only: e2[OF that])
    then show ?thesis
      by (simp only: affine_spec_def[of "fc2 f"])
  qed
  have "add3 h3 x = Inr (tensor3 ?B ?T (dim2 x) (\<lambda>b t d. at3 h3 b t d + at3 x b t d))"
    unfolding add3_def broadcast3_def
    by (simp add: h3_def)
       (rule tensor3_cong, simp add: bidx_below)
  also have "tensor3 ?B ?T (dim2 x) (\<lambda>b t d. at3 h3 b t d + at3 x b t d)
           = tensor3 ?B ?T (dim2 x) (\<lambda>b t. pre_dropout_spec f (at3 x b t))"
    by (rule tensor3_cong) (simp add: h3_def pre_dropout_spec_def e3)
  finally have s3: "add3 h3 x
      = Inr (tensor3 ?B ?T (dim2 x) (\<lambda>b t. pre_dropout_spec f (at3 x b t)))" .
  show ?thesis
    by (simp only: s1 bindE_simps Let_def assms(4) h2_def[symmetric] s2 s3)
qed

lemma normalize_spec_cong:
  assumes "\<And>i. i < n \<Longrightarrow> u i = v i" and "j < n"
  shows "normalize_spec N n u j = normalize_spec N n v j"
proof -
  have m: "sum_below n u = sum_below n v"
    by (rule sum_below_cong) (rule assms(1))
  have "sum_below n (\<lambda>i. (u i - sum_below n v / real n)\<^sup>2)
      = sum_below n (\<lambda>i. (v i - sum_below n v / real n)\<^sup>2)"
    by (rule sum_below_cong) (simp add: assms(1))
  then show ?thesis
    by (simp add: normalize_spec_def Let_def m assms(1)[OF assms(2)])
qed

lemma FFN_forward_refines:
  assumes "in_features (fc1 f) = dim2 x"
    and "out_features (fc1 f) = in_features (fc2 f)"
    and "out_features (fc2 f) = dim2 x"
    and "normalized_shape (FFN_LayerNorm f) = dim2 x"
    and "FFN_gelu f = gelu"
  shows "FFN_forward f x g = transform_block_spec f x g"
proof -
  have pre: "bindE (nn_Linear_forward (fc1 f) x) (\<lambda>out.
           let out = map3 relu out; out = map3 (FFN_gelu f) out
           in bindE (nn_Linear_forward (fc2 f) out) (\<lambda>out. add3 out x))
       = Inr (tensor3 (dim0 x) (dim1 x) (dim2 x) (\<lambda>b t. pre_dropout_spec f (at3 x b t)))"
    using assms(1,2,3,5) by (rule FFN_pre_dropout)
  define s where "s = tensor3 (dim0 x) (dim1 x) (dim2 x) (\<lambda>b t. pre_dropout_spec f (at3 x b t))"
  obtain d g' where dg: "nn_Dropout_forward (output_dropout f) s g = (d, g')"
    by (cases "nn_Dropout_forward (output_dropout f) s g")
  have dd: "dim0 d = dim0 x" "dim1 d = dim1 x" "dim2 d = dim2 x"
    using nn_Dropout_forward_dims[of "output_dropout f" s g, unfolded dg fst_conv]
    by (simp_all add: s_def)
  have ln: "nn_LayerNorm_forward (FFN_LayerNorm f) d =
      Inr (tensor3 (dim0 x) (dim1 x) (dim2 x)
             (\<lambda>b t. normalize_spec (FFN_LayerNorm f) (dim2 x) (at3 d b t)))"
    using nn_LayerNorm_forward_normalize[of d "FFN_LayerNorm f"] dd assms(4) by simp
  have "FFN_forward f x g =
      (Inr (tensor3 (dim0 x) (dim1 x) (dim2 x)
             (\<lambda>b t. normalize_spec (FFN_LayerNorm f) (dim2 x) (at3 d b t))), g')"
    unfolding FFN_forward_def pre s_def[symmetric]
    by (simp add: dg ln)
  moreover have "transform_block_spec f x g =
      (Inr (tensor3 (dim0 x) (dim1 x) (dim2 x)
             (\<lambda>b t. normalize_spec (FFN_LayerNorm f) (dim2 x) (at3 d b t))), g')"
    unfolding transform_block_spec_def s_def[symmetric]
    by (simp add: dg)
  ultimately show ?thesis by simp
qed

lemma transform_block_spec_inference:
  assumes "\<not> training (output_dropout f)"
  shows "transform_block_spec f x g =
     (Inr (tensor3 (dim0 x) (dim1 x) (dim2 x)
            (\<lambda>b t. normalize_spec (FFN_LayerNorm f) (dim2 x)
                      (pre_dropout_spec f (at3 x b t)))), g)"
proof -
  define s where "s = tensor3 (dim0 x) (dim1 x) (dim2 x) (\<lambda>b t. pre_dropout_spec f (at3 x b t))"
  have "tensor3 (dim0 x) (dim1 x) (dim2 x)
          (\<lambda>b t. normalize_spec (FFN_LayerNorm f) (dim2 x) (at3 s b t))
      = tensor3 (dim0 x) (dim1 x) (dim2 x)
          (\<lambda>b t. normalize_spec (FFN_LayerNorm f) (dim2 x) (pre_dropout_spec f (at3 x b t)))"
  proof (rule tensor3_cong)
    fix b t j assume "b < dim0 x" "t < dim1 x" "j < dim2 x"
    then show "normalize_spec (FFN_LayerNorm f) (dim2 x) (at3 s b t) j
             = normalize_spec (FFN_LayerNorm f) (dim2 x) (pre_dropout_spec f (at3 x b t)) j"
      by (intro normalize_spec_cong) (simp_all add: s_def)
  qed
  then show ?thesis
    unfolding transform_block_spec_def s_def[symmetric]
    by (simp add: nn_Dropout_forward_eval[OF assms])
qed

text \<open>
  Claim C8. On an input of the block's width, the block of a constructed layer, as
  constructed or after \<open>eval()\<close>, computes exactly what the specification's words give, in
  their order: the projection to the hidden size, ReLU, GELU on the rectified values, the
  projection back, the addition of the input, dropout, and the normalization; the
  normalized tensor is its only result (the generator is the state dropout threads
  through). Out of training mode dropout changes nothing: the result is the
  normalization of the residual sum, and the generator is untouched.
\<close>

theorem FFN_forward_follows_specified_order:
  assumes "FFN_init cfg \<theta> = Inr f0"
    and "f = f0 \<or> f = FFN_eval f0"
    and "dim2 x = attn_output_dim cfg"
  shows "FFN_forward f x g = transform_block_spec f x g
    \<and> (\<not> training (output_dropout f) \<longrightarrow>
         FFN_forward f x g =
           (Inr (tensor3 (dim0 x) (dim1 x) (dim2 x)
                  (\<lambda>b t. normalize_spec (FFN_LayerNorm f) (dim2 x)
                            (pre_dropout_spec f (at3 x b t)))), g))"
proof -
  note i = FFN_init_Inr[OF assms(1)]
  have sh: "in_features (fc1 f) = dim2 x" "out_features (fc1 f) = in_features (fc2 f)"
    "out_features (fc2 f) = dim2 x" "normalized_shape (FFN_LayerNorm f) = dim2 x"
    "FFN_gelu f = gelu"
    using assms(2,3) i by auto
  have r: "FFN_forward f x g = transform_block_spec f x g"
    using sh by (rule FFN_forward_refines)
  show ?thesis
    using r transform_block_spec_inference[of f x g] by simp
qed

theorem FFN_forward_follows_specified_order_witness:
  "\<exists>f0. FFN_init example_config (layer_params unit_params 0) = Inr f0
     \<and> dim2 (tensor3 1 4 8 (\<lambda>b t d. real d)) = attn_output_dim example_config
     \<and> FFN_forward f0 (tensor3 1 4 8 (\<lambda>b t d. real d)) half_generator
         = transform_block_spec f0 (tensor3 1 4 8 (\<lambda>b t d. real d)) half_generator
     \<and> \<not> training (output_dropout (FFN_eval f0))
     \<and> FFN_forward (FFN_eval f0) (tensor3 1 4 8 (\<lambda>b t d. real d)) half_generator
         = (Inr (tensor3 1 4 8
                  (\<lambda>b t. normalize_spec (FFN_LayerNorm (FFN_eval f0)) 8
                            (pre_dropout_spec (FFN_eval f0)
                               (at3 (tensor3 1 4 8 (\<lambda>b t d. real d)) b t)))),
            half_generator)"
proof -
  obtain f0 where f: "FFN_init example_config (layer_params unit_params 0) = Inr f0"
    using FFN_init_ok[OF example_config_facts(4,5)] by blast
  have w: "dim2 (tensor3 1 4 8 (\<lambda>b t d. real d)) = attn_output_dim example_config"
    by (simp add: example_config_def)
  have e: "\<not> training (output_dropout (FFN_eval f0))"
    by simp
  have a: "FFN_forward f0 (tensor3 1 4 8 (\<lambda>b t d. real d)) half_generator
         = transform_block_spec f0 (tensor3 1 4 8 (\<lambda>b t d. real d)) half_generator"
    using FFN_forward_follows_specified_order[OF f disjI1[OF refl] w, of half_generator]
    by (rule conjunct1)
  have b: "FFN_forward (FFN_eval f0) (tensor3 1 4 8 (\<lambda>b t d. real d)) half_generator
         = (Inr (tensor3 1 4 8
                  (\<lambda>b t. normalize_spec (FFN_LayerNorm (FFN_eval f0)) 8
                            (pre_dropout_spec (FFN_eval f0)
                               (at3 (tensor3 1 4 8 (\<lambda>b t d. real d)) b t)))),
            half_generator)"
    using FFN_forward_follows_specified_order[OF f disjI2[OF refl] w, of half_generator,
        THEN conjunct2, THEN mp, OF e]
    by (simp only: tensor3_sel)
  show ?thesis
    using f w a e b by (intro exI[of _ f0] conjI)
qed

end
